theory Spec2Isabelle
  imports Complex_Main "HOL-Library.Monad_Syntax"
begin

section \<open>Numbers and arrays\<close>

text \<open>
  Two readings of a JavaScript \<open>number\<close> are used.

  The code that calls the trigonometric functions of \<open>Math\<close> is read at the type
  \<open>real\<close>: exact arithmetic, no NaN, no infinity, no negative zero.  There, a
  computation that would leave the finite numbers (arithmetic on \<open>undefined\<close> after
  a read outside an array, a division by zero) has the value \<open>None\<close>.  What is stated
  of this code is stated through the expressions the code evaluates, in the order in
  which it evaluates them.

  The code whose behaviour turns on the range of a double is read at the type
  \<open>jsnum\<close> below.  The Hamilton product and the normalisation are polymorphic in the
  number type and use no law of arithmetic, so that what is proved of them holds of
  every arithmetic.

  A \<open>throw\<close> is a value \<open>Inl\<close> of a sum type.

  A JavaScript array is a list.  Reading an index outside it yields \<open>undefined\<close>
  (\<open>None\<close>).  Writing at an index inside it replaces the element, writing at its length
  appends, and writing further out (which would leave holes) or at a negative index is
  outside the model (\<open>None\<close>).
\<close>

definition jsget :: "'a list \<Rightarrow> int \<Rightarrow> 'a option" where
  "jsget xs i = (if 0 \<le> i \<and> i < int (length xs) then Some (xs ! nat i) else None)"

definition jsset :: "'a list \<Rightarrow> int \<Rightarrow> 'a \<Rightarrow> 'a list option" where
  "jsset xs i v =
     (if 0 \<le> i \<and> i < int (length xs) then Some (xs[nat i := v])
      else if i = int (length xs) then Some (xs @ [v])
      else None)"

definition jsdiv :: "real \<Rightarrow> real \<Rightarrow> real option" where
  \<comment> \<open>\<open>a / b\<close>: a zero divisor gives an infinity or NaN in JavaScript\<close>
  "jsdiv a b = (if b = 0 then None else Some (a / b))"

definition EPSILON :: real where
  \<comment> \<open>\<open>Number.EPSILON\<close>\<close>
  "EPSILON = 1 / 2 ^ 52"

subsection \<open>Numbers with the range of a double\<close>

text \<open>
  A \<open>jsnum\<close> is a finite number, an infinity or NaN.  The special cases of the
  operations are those of IEEE 754.  A finite result is kept exact (the rounding of
  the significand is not modelled), but its range is that of a double: a sum, product
  or quotient whose magnitude reaches \<open>2^1024 - 2^970\<close>, where rounding to nearest
  gives an infinity, is that infinity; a product or quotient of magnitude at most
  \<open>2^-1075\<close>, half the least positive double, is \<open>0\<close>.  There is one zero: a
  division by zero takes the sign of the dividend, as a division by \<open>+0\<close> does.
  \<open>undefined\<close> in arithmetic is NaN.
\<close>

datatype jsnum = Fin real | PInf | NInf | NaN

definition overflow_bound :: real where
  "overflow_bound = 2 ^ 1024 - 2 ^ 970"

definition underflow_bound :: real where
  "underflow_bound = 1 / 2 ^ 1075"

definition of_sum :: "real \<Rightarrow> jsnum" where
  "of_sum r = (if overflow_bound \<le> \<bar>r\<bar> then (if 0 < r then PInf else NInf) else Fin r)"

definition of_product :: "real \<Rightarrow> jsnum" where
  "of_product r =
     (if overflow_bound \<le> \<bar>r\<bar> then (if 0 < r then PInf else NInf)
      else if \<bar>r\<bar> \<le> underflow_bound then Fin 0
      else Fin r)"

instantiation jsnum :: "{zero,one,plus,minus,uminus,times,inverse}"
begin

definition zero_jsnum :: jsnum where
  "zero_jsnum = Fin 0"

definition one_jsnum :: jsnum where
  "one_jsnum = Fin 1"

fun uminus_jsnum :: "jsnum \<Rightarrow> jsnum" where
  "uminus_jsnum (Fin a) = Fin (- a)"
| "uminus_jsnum PInf = NInf"
| "uminus_jsnum NInf = PInf"
| "uminus_jsnum NaN = NaN"

fun plus_jsnum :: "jsnum \<Rightarrow> jsnum \<Rightarrow> jsnum" where
  "plus_jsnum (Fin a) (Fin b) = of_sum (a + b)"
| "plus_jsnum NaN _ = NaN"
| "plus_jsnum _ NaN = NaN"
| "plus_jsnum PInf NInf = NaN"
| "plus_jsnum NInf PInf = NaN"
| "plus_jsnum PInf _ = PInf"
| "plus_jsnum _ PInf = PInf"
| "plus_jsnum NInf _ = NInf"
| "plus_jsnum _ NInf = NInf"

definition minus_jsnum :: "jsnum \<Rightarrow> jsnum \<Rightarrow> jsnum" where
  "minus_jsnum a b = a + (- b)"

fun times_jsnum :: "jsnum \<Rightarrow> jsnum \<Rightarrow> jsnum" where
  "times_jsnum (Fin a) (Fin b) = of_product (a * b)"
| "times_jsnum NaN _ = NaN"
| "times_jsnum _ NaN = NaN"
| "times_jsnum (Fin a) PInf = (if a = 0 then NaN else if 0 < a then PInf else NInf)"
| "times_jsnum (Fin a) NInf = (if a = 0 then NaN else if 0 < a then NInf else PInf)"
| "times_jsnum PInf (Fin b) = (if b = 0 then NaN else if 0 < b then PInf else NInf)"
| "times_jsnum NInf (Fin b) = (if b = 0 then NaN else if 0 < b then NInf else PInf)"
| "times_jsnum PInf PInf = PInf"
| "times_jsnum NInf NInf = PInf"
| "times_jsnum PInf NInf = NInf"
| "times_jsnum NInf PInf = NInf"

fun divide_jsnum :: "jsnum \<Rightarrow> jsnum \<Rightarrow> jsnum" where
  "divide_jsnum (Fin a) (Fin b) =
     (if b = 0 then (if a = 0 then NaN else if 0 < a then PInf else NInf)
      else of_product (a / b))"
| "divide_jsnum NaN _ = NaN"
| "divide_jsnum _ NaN = NaN"
| "divide_jsnum (Fin a) _ = Fin 0"
| "divide_jsnum PInf (Fin b) = (if b < 0 then NInf else PInf)"
| "divide_jsnum NInf (Fin b) = (if b < 0 then PInf else NInf)"
| "divide_jsnum _ _ = NaN"

definition inverse_jsnum :: "jsnum \<Rightarrow> jsnum" where
  "inverse_jsnum a = divide (Fin 1) a"

instance ..

end

fun js_sqrt :: "jsnum \<Rightarrow> jsnum" where
  \<comment> \<open>\<open>Math.sqrt\<close>\<close>
  "js_sqrt (Fin a) = (if a < 0 then NaN else Fin (sqrt a))"
| "js_sqrt PInf = PInf"
| "js_sqrt NInf = NaN"
| "js_sqrt NaN = NaN"

fun num_of :: "jsnum option \<Rightarrow> jsnum" where
  \<comment> \<open>an array element as an operand: \<open>undefined\<close> becomes NaN\<close>
  "num_of (Some v) = v"
| "num_of None = NaN"

section \<open>Quaternion\<close>

text \<open>
  The fields \<open>_x\<close>, \<open>_y\<close>, \<open>_z\<close>, \<open>_w\<close> of the class, and the number of calls of
  \<open>_onChangeCallback\<close> made so far.  Methods take \<open>this\<close> first and return it
  updated.  Every method below reads all it needs of its arguments before it writes, so
  passing values is faithful also when an argument is \<open>this\<close> itself.
\<close>

record 'n quaternion =
  q_x :: 'n
  q_y :: 'n
  q_z :: 'n
  q_w :: 'n
  q_changes :: nat

definition onChangeCallback :: "'n quaternion \<Rightarrow> 'n quaternion" where
  "onChangeCallback q = q\<lparr>q_changes := Suc (q_changes q)\<rparr>"

definition components :: "'n quaternion \<Rightarrow> 'n \<times> 'n \<times> 'n \<times> 'n" where
  "components q = (q_x q, q_y q, q_z q, q_w q)"

definition fromArray :: "'n quaternion \<Rightarrow> 'n list \<Rightarrow> int \<Rightarrow> 'n quaternion option" where
  "fromArray this array offset = do {
     x \<leftarrow> jsget array offset;
     y \<leftarrow> jsget array (offset + 1);
     z \<leftarrow> jsget array (offset + 2);
     w \<leftarrow> jsget array (offset + 3);
     Some (onChangeCallback (this\<lparr>q_x := x, q_y := y, q_z := z, q_w := w\<rparr>))
   }"

definition toArray :: "'n quaternion \<Rightarrow> 'n list \<Rightarrow> int \<Rightarrow> 'n list option" where
  "toArray this array offset = do {
     a1 \<leftarrow> jsset array offset (q_x this);
     a2 \<leftarrow> jsset a1 (offset + 1) (q_y this);
     a3 \<leftarrow> jsset a2 (offset + 2) (q_z this);
     jsset a3 (offset + 3) (q_w this)
   }"

definition multiplyQuaternions ::
  "('n::{plus,minus,times}) quaternion \<Rightarrow> 'n quaternion \<Rightarrow> 'n quaternion \<Rightarrow> 'n quaternion" where
  "multiplyQuaternions this a b =
     (let qax = q_x a; qay = q_y a; qaz = q_z a; qaw = q_w a;
          qbx = q_x b; qby = q_y b; qbz = q_z b; qbw = q_w b
      in onChangeCallback (this\<lparr>
           q_x := qax * qbw + qaw * qbx + qay * qbz - qaz * qby,
           q_y := qay * qbw + qaw * qby + qaz * qbx - qax * qbz,
           q_z := qaz * qbw + qaw * qbz + qax * qby - qay * qbx,
           q_w := qaw * qbw - qax * qbx - qay * qby - qaz * qbz\<rparr>))"

definition multiplyQuaternionsFlat ::
  "('n::{plus,minus,times}) list \<Rightarrow> int \<Rightarrow> 'n list \<Rightarrow> int \<Rightarrow> 'n list \<Rightarrow> int \<Rightarrow> 'n list option" where
  "multiplyQuaternionsFlat dst dstOffset src0 srcOffset0 src1 srcOffset1 = do {
     x0 \<leftarrow> jsget src0 srcOffset0;
     y0 \<leftarrow> jsget src0 (srcOffset0 + 1);
     z0 \<leftarrow> jsget src0 (srcOffset0 + 2);
     w0 \<leftarrow> jsget src0 (srcOffset0 + 3);
     x1 \<leftarrow> jsget src1 srcOffset1;
     y1 \<leftarrow> jsget src1 (srcOffset1 + 1);
     z1 \<leftarrow> jsget src1 (srcOffset1 + 2);
     w1 \<leftarrow> jsget src1 (srcOffset1 + 3);
     d1 \<leftarrow> jsset dst dstOffset (x0 * w1 + w0 * x1 + y0 * z1 - z0 * y1);
     d2 \<leftarrow> jsset d1 (dstOffset + 1) (y0 * w1 + w0 * y1 + z0 * x1 - x0 * z1);
     d3 \<leftarrow> jsset d2 (dstOffset + 2) (z0 * w1 + w0 * z1 + x0 * y1 - y0 * x1);
     jsset d3 (dstOffset + 3) (w0 * w1 - x0 * x1 - y0 * y1 - z0 * z1)
   }"


text \<open>
  The functions of JavaScript's \<open>Math\<close> that the code calls: \<open>Math.sqrt\<close>,
  \<open>Math.sin\<close>, \<open>Math.cos\<close>, \<open>Math.abs\<close>, \<open>Math.acos\<close> and \<open>Math.asin\<close> are
  \<open>sqrt\<close>, \<open>sin\<close>, \<open>cos\<close>, \<open>abs\<close>, \<open>arccos\<close> and \<open>arcsin\<close> (the code calls the
  last two on clamped arguments and \<open>Math.sqrt\<close> on non-negative ones).
  \<open>Math.atan2\<close> on finite numbers is:
\<close>

definition atan2 :: "real \<Rightarrow> real \<Rightarrow> real" where
  "atan2 y x =
     (if 0 < x then arctan (y / x)
      else if x < 0 then (if 0 \<le> y then arctan (y / x) + pi else arctan (y / x) - pi)
      else if 0 < y then pi / 2
      else if y < 0 then - (pi / 2)
      else 0)"

text \<open>
  Modelled from the spec: \<open>MathUtils.clamp\<close>, whose source is not among the files;
  the value is "clamped to [-1,1]", and the test of \<open>clamp\<close> expects the bound on the
  side the value leaves the interval.
\<close>

definition clamp :: "real \<Rightarrow> real \<Rightarrow> real \<Rightarrow> real" where
  "clamp v lo hi = max lo (min hi v)"

definition copy :: "'n quaternion \<Rightarrow> 'n quaternion \<Rightarrow> 'n quaternion" where
  "copy this quaternion =
     onChangeCallback (this\<lparr>q_x := q_x quaternion, q_y := q_y quaternion,
                            q_z := q_z quaternion, q_w := q_w quaternion\<rparr>)"

definition dot :: "real quaternion \<Rightarrow> real quaternion \<Rightarrow> real" where
  "dot this v = q_x this * q_x v + q_y this * q_y v + q_z this * q_z v + q_w this * q_w v"

text \<open>
  \<open>length\<close> and \<open>normalize\<close> take \<open>Math.sqrt\<close> as their first argument and are
  polymorphic in the number type: they are read at \<open>real\<close> with \<open>sqrt\<close>, where
  \<open>slerp\<close> calls \<open>normalize\<close>, and at \<open>jsnum\<close> with \<open>js_sqrt\<close>.
\<close>

definition length_quat :: "('n \<Rightarrow> 'n) \<Rightarrow> ('n::{plus,times}) quaternion \<Rightarrow> 'n" where
  "length_quat Math_sqrt this =
     Math_sqrt (q_x this * q_x this + q_y this * q_y this + q_z this * q_z this
                + q_w this * q_w this)"

definition normalize_quat ::
  "('n \<Rightarrow> 'n) \<Rightarrow> ('n::{zero,one,plus,times,inverse}) quaternion \<Rightarrow> 'n quaternion" where
  "normalize_quat Math_sqrt this =
     (let l = length_quat Math_sqrt this
      in onChangeCallback
           (if l = 0 then this\<lparr>q_x := 0, q_y := 0, q_z := 0, q_w := 1\<rparr>
            else let l = 1 / l
                 in this\<lparr>q_x := q_x this * l, q_y := q_y this * l,
                          q_z := q_z this * l, q_w := q_w this * l\<rparr>))"

definition angleTo :: "real quaternion \<Rightarrow> real quaternion \<Rightarrow> real" where
  "angleTo this q = 2 * arccos \<bar>clamp (dot this q) (- 1) 1\<bar>"

text \<open>
  \<open>slerp\<close>.  The two divisions are by \<open>sinHalfTheta\<close>, the square root of a number
  above \<open>Number.EPSILON\<close>, so they are never by zero.
\<close>

definition slerp :: "real quaternion \<Rightarrow> real quaternion \<Rightarrow> real \<Rightarrow> real quaternion" where
  "slerp this qb t =
     (if t = 0 then this
      else if t = 1 then copy this qb
      else
        let x = q_x this; y = q_y this; z = q_z this; w = q_w this;
            cosHalfTheta = w * q_w qb + x * q_x qb + y * q_y qb + z * q_z qb;
            (this, cosHalfTheta) =
              (if cosHalfTheta < 0
               then (this\<lparr>q_w := - q_w qb, q_x := - q_x qb, q_y := - q_y qb, q_z := - q_z qb\<rparr>,
                     - cosHalfTheta)
               else (copy this qb, cosHalfTheta))
        in
          if cosHalfTheta \<ge> 1 then this\<lparr>q_w := w, q_x := x, q_y := y, q_z := z\<rparr>
          else
            let sqrSinHalfTheta = 1 - cosHalfTheta * cosHalfTheta
            in
              if sqrSinHalfTheta \<le> EPSILON then
                let s = 1 - t;
                    this = this\<lparr>q_w := s * w + t * q_w this, q_x := s * x + t * q_x this,
                                q_y := s * y + t * q_y this, q_z := s * z + t * q_z this\<rparr>
                in onChangeCallback (normalize_quat sqrt this)
              else
                let sinHalfTheta = sqrt sqrSinHalfTheta;
                    halfTheta = atan2 sinHalfTheta cosHalfTheta;
                    ratioA = sin ((1 - t) * halfTheta) / sinHalfTheta;
                    ratioB = sin (t * halfTheta) / sinHalfTheta
                in onChangeCallback
                     (this\<lparr>q_w := w * ratioA + q_w this * ratioB,
                            q_x := x * ratioA + q_x this * ratioB,
                            q_y := y * ratioA + q_y this * ratioB,
                            q_z := z * ratioA + q_z this * ratioB\<rparr>))"

text \<open>
  \<open>slerpFlat\<close>.  \<open>slerpFlat_blend\<close> is the block under
  \<open>if ( w0 !== w1 || x0 !== x1 || y0 !== y1 || z0 !== z1 )\<close>; its last division,
  \<open>1 / Math.sqrt( ... )\<close>, is by zero when the blended components are all zero.
\<close>

definition slerpFlat_blend ::
  "real \<Rightarrow> real \<Rightarrow> real \<Rightarrow> real \<Rightarrow> real \<Rightarrow> real \<Rightarrow> real \<Rightarrow> real \<Rightarrow> real
     \<Rightarrow> (real \<times> real \<times> real \<times> real) option" where
  "slerpFlat_blend x0 y0 z0 w0 x1 y1 z1 w1 t =
     (let s = 1 - t;
          cos = x0 * x1 + y0 * y1 + z0 * z1 + w0 * w1;
          dir = (if cos \<ge> 0 then 1 else - 1);
          sqrSin = 1 - cos * cos;
          (s, t) =
            (if sqrSin > EPSILON
             then let sin' = sqrt sqrSin;
                      len = atan2 sin' (cos * dir)
                  in (sin (s * len) / sin', sin (t * len) / sin')
             else (s, t));
          tDir = t * dir;
          x0 = x0 * s + x1 * tDir;
          y0 = y0 * s + y1 * tDir;
          z0 = z0 * s + z1 * tDir;
          w0 = w0 * s + w1 * tDir
      in
        if s = 1 - t then do {
          f \<leftarrow> jsdiv 1 (sqrt (x0 * x0 + y0 * y0 + z0 * z0 + w0 * w0));
          Some (x0 * f, y0 * f, z0 * f, w0 * f)
        }
        else Some (x0, y0, z0, w0))"

definition write4 :: "'n list \<Rightarrow> int \<Rightarrow> 'n \<Rightarrow> 'n \<Rightarrow> 'n \<Rightarrow> 'n \<Rightarrow> 'n list option" where
  \<comment> \<open>the four assignments \<open>dst[ dstOffset + k ] = ...\<close>, in the order \<open>k = 0, 1, 2, 3\<close>\<close>
  "write4 dst dstOffset x y z w = do {
     d1 \<leftarrow> jsset dst dstOffset x;
     d2 \<leftarrow> jsset d1 (dstOffset + 1) y;
     d3 \<leftarrow> jsset d2 (dstOffset + 2) z;
     jsset d3 (dstOffset + 3) w
   }"

definition slerpFlat ::
  "real list \<Rightarrow> int \<Rightarrow> real list \<Rightarrow> int \<Rightarrow> real list \<Rightarrow> int \<Rightarrow> real \<Rightarrow> real list option" where
  "slerpFlat dst dstOffset src0 srcOffset0 src1 srcOffset1 t = do {
     x0 \<leftarrow> jsget src0 (srcOffset0 + 0);
     y0 \<leftarrow> jsget src0 (srcOffset0 + 1);
     z0 \<leftarrow> jsget src0 (srcOffset0 + 2);
     w0 \<leftarrow> jsget src0 (srcOffset0 + 3);
     x1 \<leftarrow> jsget src1 (srcOffset1 + 0);
     y1 \<leftarrow> jsget src1 (srcOffset1 + 1);
     z1 \<leftarrow> jsget src1 (srcOffset1 + 2);
     w1 \<leftarrow> jsget src1 (srcOffset1 + 3);
     if t = 0 then write4 dst dstOffset x0 y0 z0 w0
     else if t = 1 then write4 dst dstOffset x1 y1 z1 w1
     else do {
       (x0, y0, z0, w0) \<leftarrow>
         (if w0 \<noteq> w1 \<or> x0 \<noteq> x1 \<or> y0 \<noteq> y1 \<or> z0 \<noteq> z1
          then slerpFlat_blend x0 y0 z0 w0 x1 y1 z1 w1 t
          else Some (x0, y0, z0, w0));
       write4 dst dstOffset x0 y0 z0 w0
     }
   }"

section \<open>Euler\<close>

text \<open>
  The fields \<open>_x\<close>, \<open>_y\<close>, \<open>_z\<close>, \<open>_order\<close> and the number of calls of
  \<open>_onChangeCallback\<close>.  \<open>IOrder\<close> is a type of the compiler only: at run time an
  order is any string.
\<close>

record euler =
  e_x :: real
  e_y :: real
  e_z :: real
  e_order :: string
  e_changes :: nat

definition euler_onChangeCallback :: "euler \<Rightarrow> euler" where
  "euler_onChangeCallback e = e\<lparr>e_changes := Suc (e_changes e)\<rparr>"

definition RotationOrders :: "string list" where
  "RotationOrders = [''XYZ'', ''YZX'', ''ZXY'', ''XZY'', ''YXZ'', ''ZYX'']"

text \<open>
  What \<open>setFromEuler\<close> may be handed: a falsy value (\<open>undefined\<close>, \<open>null\<close>), a value
  whose \<open>isEuler\<close> is falsy (a \<open>Vector3\<close>, say), or an \<open>Euler\<close>, whose getter
  \<open>isEuler\<close> returns \<open>true\<close>.
\<close>

datatype euler_arg = JsUndefined | JsNull | NonEuler | AnEuler euler

datatype error = Error string

fun isEuler_truthy :: "euler_arg \<Rightarrow> bool" where
  \<comment> \<open>\<open>euler && euler.isEuler\<close>\<close>
  "isEuler_truthy (AnEuler e) = True"
| "isEuler_truthy _ = False"

text \<open>
  \<open>setFromEuler\<close> returns \<open>this\<close> and what it gave to \<open>console.warn\<close>.  The
  parameter \<open>update\<close> is \<open>None\<close> when it is not passed.
\<close>

definition setFromEuler ::
  "real quaternion \<Rightarrow> euler_arg \<Rightarrow> bool option \<Rightarrow> error + (real quaternion \<times> string list)" where
  "setFromEuler this euler update =
     (case euler of
        AnEuler e \<Rightarrow>
          let x = e_x e; y = e_y e; z = e_z e; order = e_order e;
              c1 = cos (x / 2); c2 = cos (y / 2); c3 = cos (z / 2);
              s1 = sin (x / 2); s2 = sin (y / 2); s3 = sin (z / 2);
              (this, warned) =
                (if order = ''XYZ'' then
                   (this\<lparr>q_x := s1 * c2 * c3 + c1 * s2 * s3,
                          q_y := c1 * s2 * c3 - s1 * c2 * s3,
                          q_z := c1 * c2 * s3 + s1 * s2 * c3,
                          q_w := c1 * c2 * c3 - s1 * s2 * s3\<rparr>, [])
                 else if order = ''YXZ'' then
                   (this\<lparr>q_x := s1 * c2 * c3 + c1 * s2 * s3,
                          q_y := c1 * s2 * c3 - s1 * c2 * s3,
                          q_z := c1 * c2 * s3 - s1 * s2 * c3,
                          q_w := c1 * c2 * c3 + s1 * s2 * s3\<rparr>, [])
                 else if order = ''ZXY'' then
                   (this\<lparr>q_x := s1 * c2 * c3 - c1 * s2 * s3,
                          q_y := c1 * s2 * c3 + s1 * c2 * s3,
                          q_z := c1 * c2 * s3 + s1 * s2 * c3,
                          q_w := c1 * c2 * c3 - s1 * s2 * s3\<rparr>, [])
                 else if order = ''ZYX'' then
                   (this\<lparr>q_x := s1 * c2 * c3 - c1 * s2 * s3,
                          q_y := c1 * s2 * c3 + s1 * c2 * s3,
                          q_z := c1 * c2 * s3 - s1 * s2 * c3,
                          q_w := c1 * c2 * c3 + s1 * s2 * s3\<rparr>, [])
                 else if order = ''YZX'' then
                   (this\<lparr>q_x := s1 * c2 * c3 + c1 * s2 * s3,
                          q_y := c1 * s2 * c3 + s1 * c2 * s3,
                          q_z := c1 * c2 * s3 - s1 * s2 * c3,
                          q_w := c1 * c2 * c3 - s1 * s2 * s3\<rparr>, [])
                 else if order = ''XZY'' then
                   (this\<lparr>q_x := s1 * c2 * c3 - c1 * s2 * s3,
                          q_y := c1 * s2 * c3 - s1 * c2 * s3,
                          q_z := c1 * c2 * s3 + s1 * s2 * c3,
                          q_w := c1 * c2 * c3 + s1 * s2 * s3\<rparr>, [])
                 else
                   (this, [''THREE.Quaternion: .setFromEuler() encountered an unknown order: ''
                            @ order]))
          in Inr (if update \<noteq> Some False then onChangeCallback this else this, warned)
      | _ \<Rightarrow>
          Inl (Error (''THREE.Quaternion: .setFromEuler() now expects an Euler rotation ''
                      @ ''rather than a Vector3 and order.'')))"

text \<open>
  A \<open>Matrix4\<close> holds its elements in an array, column after column.
\<close>

record matrix4 =
  elements :: "real list"

text \<open>
  \<open>Euler.setFromRotationMatrix\<close> returns \<open>this\<close> and what it gave to
  \<open>console.warn\<close>.  The parameters \<open>order\<close> and \<open>update\<close> are \<open>None\<close> when they
  are not passed; in \<open>order || this._order\<close> the empty string is falsy, as
  \<open>undefined\<close> is.
\<close>

definition setFromRotationMatrix ::
  "euler \<Rightarrow> matrix4 \<Rightarrow> string option \<Rightarrow> bool option \<Rightarrow> (euler \<times> string list) option" where
  "setFromRotationMatrix this m order update = do {
     let te = elements m;
     m11 \<leftarrow> jsget te 0; m12 \<leftarrow> jsget te 4; m13 \<leftarrow> jsget te 8;
     m21 \<leftarrow> jsget te 1; m22 \<leftarrow> jsget te 5; m23 \<leftarrow> jsget te 9;
     m31 \<leftarrow> jsget te 2; m32 \<leftarrow> jsget te 6; m33 \<leftarrow> jsget te 10;
     let order = (case order of
                    None \<Rightarrow> e_order this
                  | Some s \<Rightarrow> if s = [] then e_order this else s);
     let (this, warned) =
       (if order = ''XYZ'' then
          (let this = this\<lparr>e_y := arcsin (clamp m13 (- 1) 1)\<rparr>
           in if \<bar>m13\<bar> < 9999999 / 10000000
              then this\<lparr>e_x := atan2 (- m23) m33, e_z := atan2 (- m12) m11\<rparr>
              else this\<lparr>e_x := atan2 m32 m22, e_z := 0\<rparr>, [])
        else if order = ''YXZ'' then
          (let this = this\<lparr>e_x := arcsin (- clamp m23 (- 1) 1)\<rparr>
           in if \<bar>m23\<bar> < 9999999 / 10000000
              then this\<lparr>e_y := atan2 m13 m33, e_z := atan2 m21 m22\<rparr>
              else this\<lparr>e_y := atan2 (- m31) m11, e_z := 0\<rparr>, [])
        else if order = ''ZXY'' then
          (let this = this\<lparr>e_x := arcsin (clamp m32 (- 1) 1)\<rparr>
           in if \<bar>m32\<bar> < 9999999 / 10000000
              then this\<lparr>e_y := atan2 (- m31) m33, e_z := atan2 (- m12) m22\<rparr>
              else this\<lparr>e_y := 0, e_z := atan2 m21 m11\<rparr>, [])
        else if order = ''ZYX'' then
          (let this = this\<lparr>e_y := arcsin (- clamp m31 (- 1) 1)\<rparr>
           in if \<bar>m31\<bar> < 9999999 / 10000000
              then this\<lparr>e_x := atan2 m32 m33, e_z := atan2 m21 m11\<rparr>
              else this\<lparr>e_x := 0, e_z := atan2 (- m12) m22\<rparr>, [])
        else if order = ''YZX'' then
          (let this = this\<lparr>e_z := arcsin (clamp m21 (- 1) 1)\<rparr>
           in if \<bar>m21\<bar> < 9999999 / 10000000
              then this\<lparr>e_x := atan2 (- m23) m22, e_y := atan2 (- m31) m11\<rparr>
              else this\<lparr>e_x := 0, e_y := atan2 m13 m33\<rparr>, [])
        else if order = ''XZY'' then
          (let this = this\<lparr>e_z := arcsin (- clamp m12 (- 1) 1)\<rparr>
           in if \<bar>m12\<bar> < 9999999 / 10000000
              then this\<lparr>e_x := atan2 m32 m22, e_y := atan2 m13 m11\<rparr>
              else this\<lparr>e_x := atan2 (- m23) m33, e_y := 0\<rparr>, [])
        else
          (this, [''THREE.Euler: .setFromRotationMatrix() encountered an unknown order: ''
                   @ order]));
     let this = this\<lparr>e_order := order\<rparr>;
     Some (if update \<noteq> Some False then euler_onChangeCallback this else this, warned)
   }"

section \<open>CubicInterpolant\<close>

text \<open>
  The ending modes are constants imported from \<open>Interpolant.js\<close>; a \<open>switch\<close> over
  them sends \<open>ZeroCurvatureEnding\<close> to its \<open>default\<close> branch.
\<close>

datatype ending = ZeroSlopeEnding | WrapAroundEnding | ZeroCurvatureEnding

record cubic_settings =
  endingStart :: ending
  endingEnd :: ending

text \<open>
  The fields of the base class that the two methods read (\<open>parameterPositions\<close>,
  \<open>sampleValues\<close>, \<open>valueSize\<close>, \<open>resultBuffer\<close>, \<open>settings\<close>) and the four
  fields that \<open>intervalChanged_\<close> caches.  \<open>valueSize\<close>, the stride, is a count.
  The numbers are \<open>jsnum\<close>s: \<open>intervalChanged_\<close> divides by differences of sample
  positions and caches whatever the division gives.
\<close>

record cubic_interpolant =
  parameterPositions :: "jsnum list"
  sampleValues :: "jsnum list"
  valueSize :: nat
  resultBuffer :: "jsnum list"
  settings :: "cubic_settings option"
  weightPrev :: jsnum
  offsetPrev :: int
  weightNext :: jsnum
  offsetNext :: int

definition DefaultSettings :: cubic_settings where
  \<comment> \<open>\<open>this.DefaultSettings_\<close>, as the constructor sets it\<close>
  "DefaultSettings = \<lparr>endingStart = ZeroCurvatureEnding, endingEnd = ZeroCurvatureEnding\<rparr>"

text \<open>
  Modelled from the spec: \<open>getSettings_\<close> of the base class \<open>Interpolant\<close>, whose
  source is not among the files; the settings choose the boundary behaviour, and
  \<open>ZeroCurvatureEnding\<close> is the default.
\<close>

definition getSettings :: "cubic_interpolant \<Rightarrow> cubic_settings" where
  "getSettings this = (case settings this of Some s \<Rightarrow> s | None \<Rightarrow> DefaultSettings)"

definition intervalChanged :: "cubic_interpolant \<Rightarrow> int \<Rightarrow> jsnum \<Rightarrow> jsnum \<Rightarrow> cubic_interpolant" where
  "intervalChanged this i1 t0 t1 =
     (let pp = parameterPositions this;
          iPrev = i1 - 2;
          iNext = i1 + 1;
          (iPrev, tPrev) =
            (case jsget pp iPrev of
               Some tPrev \<Rightarrow> (iPrev, tPrev)
             | None \<Rightarrow>
                 (case endingStart (getSettings this) of
                    ZeroSlopeEnding \<Rightarrow> (i1, Fin 2 * t0 - t1)
                  | WrapAroundEnding \<Rightarrow>
                      (let iPrev = int (length pp) - 2
                       in (iPrev, t0 + num_of (jsget pp iPrev) - num_of (jsget pp (iPrev + 1))))
                  | _ \<Rightarrow> (i1, t1)));
          (iNext, tNext) =
            (case jsget pp iNext of
               Some tNext \<Rightarrow> (iNext, tNext)
             | None \<Rightarrow>
                 (case endingEnd (getSettings this) of
                    ZeroSlopeEnding \<Rightarrow> (i1, Fin 2 * t1 - t0)
                  | WrapAroundEnding \<Rightarrow>
                      (1, t1 + num_of (jsget pp 1) - num_of (jsget pp 0))
                  | _ \<Rightarrow> (i1 - 1, t0)));
          halfDt = (t1 - t0) * Fin 0.5;
          stride = int (valueSize this)
      in this\<lparr>weightPrev := halfDt / (t0 - tPrev),
               weightNext := halfDt / (tNext - t1),
               offsetPrev := iPrev * stride,
               offsetNext := iNext * stride\<rparr>)"

text \<open>
  The loop \<open>for (let i = 0; i !== stride; ++i)\<close> of \<open>interpolate_\<close>: a step reads the
  four rows at \<open>i\<close> and writes \<open>result[i]\<close>.
\<close>

partial_function (option) interpolate_loop ::
  "jsnum list \<Rightarrow> nat \<Rightarrow> int \<Rightarrow> int \<Rightarrow> int \<Rightarrow> int \<Rightarrow> jsnum \<Rightarrow> jsnum \<Rightarrow> jsnum \<Rightarrow> jsnum
     \<Rightarrow> nat \<Rightarrow> jsnum list \<Rightarrow> jsnum list option" where
  "interpolate_loop values stride oP o0 o1 oN sP s0 s1 sN i result =
     (if i \<noteq> stride then do {
        result \<leftarrow> jsset result (int i)
          (sP * num_of (jsget values (oP + int i)) +
           s0 * num_of (jsget values (o0 + int i)) +
           s1 * num_of (jsget values (o1 + int i)) +
           sN * num_of (jsget values (oN + int i)));
        interpolate_loop values stride oP o0 o1 oN sP s0 s1 sN (i + 1) result
      }
      else Some result)"

definition interpolate ::
  "cubic_interpolant \<Rightarrow> int \<Rightarrow> jsnum \<Rightarrow> jsnum \<Rightarrow> jsnum \<Rightarrow> cubic_interpolant option" where
  "interpolate this i1 t0 t t1 = do {
     let result = resultBuffer this;
     let values = sampleValues this;
     let stride = valueSize this;
     let o1 = i1 * int stride; let o0 = o1 - int stride;
     let oP = offsetPrev this; let oN = offsetNext this;
     let wP = weightPrev this; let wN = weightNext this;
     let p = (t - t0) / (t1 - t0);
     let pp = p * p;
     let ppp = pp * p;
     let sP = - wP * ppp + Fin 2 * wP * pp - wP * p;
     let s0 = (Fin 1 + wP) * ppp + (Fin (- 1.5) - Fin 2 * wP) * pp + (Fin (- 0.5) + wP) * p + Fin 1;
     let s1 = (Fin (- 1) - wN) * ppp + (Fin 1.5 + wN) * pp + Fin 0.5 * p;
     let sN = wN * ppp - wN * pp;
     result \<leftarrow> interpolate_loop values stride oP o0 o1 oN sP s0 s1 sN 0 result;
     Some (this\<lparr>resultBuffer := result\<rparr>)
   }"

section \<open>Notions of the statements\<close>

text \<open>
  The componentwise negation \<open>-q\<close> of a quaternion.
\<close>

definition negated :: "real quaternion \<Rightarrow> real quaternion" where
  "negated q = q\<lparr>q_x := - q_x q, q_y := - q_y q, q_z := - q_z q, q_w := - q_w q\<rparr>"

text \<open>
  The cosine as \<open>slerp\<close> computes it, summed in the order \<open>w, x, y, z\<close> (\<open>dot\<close> and
  \<open>slerpFlat\<close> sum in the order \<open>x, y, z, w\<close>); the components that \<open>slerp\<close> takes
  from \<open>qb\<close>, negated when this cosine is negative; the length that \<open>normalize\<close>
  finds after the linear blend of \<open>slerp\<close>; and the two ratios of its spherical
  blend, at the absolute value \<open>c\<close> of the cosine.
\<close>

definition cosHalfTheta :: "real quaternion \<Rightarrow> real quaternion \<Rightarrow> real" where
  "cosHalfTheta this qb =
     q_w this * q_w qb + q_x this * q_x qb + q_y this * q_y qb + q_z this * q_z qb"

definition slerp_target :: "real quaternion \<Rightarrow> real quaternion \<Rightarrow> real \<times> real \<times> real \<times> real" where
  "slerp_target this qb =
     (if cosHalfTheta this qb < 0 then (- q_x qb, - q_y qb, - q_z qb, - q_w qb)
      else (q_x qb, q_y qb, q_z qb, q_w qb))"

definition lerp_length :: "real quaternion \<Rightarrow> real quaternion \<Rightarrow> real \<Rightarrow> real" where
  "lerp_length this qb t =
     (let (bx, by, bz, bw) = slerp_target this qb;
          s = 1 - t;
          vx = s * q_x this + t * bx; vy = s * q_y this + t * by;
          vz = s * q_z this + t * bz; vw = s * q_w this + t * bw
      in sqrt (vx * vx + vy * vy + vz * vz + vw * vw))"

definition ratioA :: "real \<Rightarrow> real \<Rightarrow> real" where
  "ratioA c t = sin ((1 - t) * atan2 (sqrt (1 - c * c)) c) / sqrt (1 - c * c)"

definition ratioB :: "real \<Rightarrow> real \<Rightarrow> real" where
  "ratioB c t = sin (t * atan2 (sqrt (1 - c * c)) c) / sqrt (1 - c * c)"

text \<open>
  What \<open>slerp\<close> computes from the components of \<open>this\<close>, those it took from \<open>qb\<close>
  and the absolute value of the cosine, when \<open>t\<close> is neither \<open>0\<close> nor \<open>1\<close>.
\<close>

definition slerp_tail ::
  "real \<Rightarrow> real \<Rightarrow> real \<Rightarrow> real \<Rightarrow> real \<Rightarrow> real \<Rightarrow> real \<Rightarrow> real \<Rightarrow> real \<Rightarrow> real
     \<Rightarrow> real \<times> real \<times> real \<times> real" where
  "slerp_tail x y z w bx by bz bw c t =
     (if c \<ge> 1 then (x, y, z, w)
      else if 1 - c * c \<le> EPSILON then
        (let s = 1 - t;
             vx = s * x + t * bx; vy = s * y + t * by; vz = s * z + t * bz; vw = s * w + t * bw;
             l = sqrt (vx * vx + vy * vy + vz * vz + vw * vw)
         in if l = 0 then (0, 0, 0, 1)
            else (vx * (1 / l), vy * (1 / l), vz * (1 / l), vw * (1 / l)))
      else
        (let sn = sqrt (1 - c * c);
             th = atan2 sn c;
             ra = sin ((1 - t) * th) / sn;
             rb = sin (t * th) / sn
         in (x * ra + bx * rb, y * ra + by * rb, z * ra + bz * rb, w * ra + bw * rb)))"

text \<open>
  The greatest double; a finite number within the range of the doubles; the sample row \<open>k\<close> of a flat
  array of rows of \<open>stride\<close> numbers; that a row of \<open>stride\<close> numbers starts at
  offset \<open>off\<close> inside the array; and the linear combination of four rows that one
  step of the loop of \<open>interpolate_\<close> stores.
\<close>

definition max_double :: real where
  "max_double = 2 ^ 1024 - 2 ^ 971"

definition in_range :: "real \<Rightarrow> bool" where
  "in_range r \<longleftrightarrow> \<bar>r\<bar> \<le> max_double \<and> (r = 0 \<or> underflow_bound < \<bar>r\<bar>)"

fun is_double :: "jsnum \<Rightarrow> bool" where
  "is_double (Fin r) = in_range r"
| "is_double _ = False"

definition row :: "jsnum list \<Rightarrow> nat \<Rightarrow> nat \<Rightarrow> jsnum list" where
  "row values stride k = take stride (drop (k * stride) values)"

definition rows_in_range :: "jsnum list \<Rightarrow> nat \<Rightarrow> int \<Rightarrow> bool" where
  "rows_in_range values stride off \<longleftrightarrow> 0 \<le> off \<and> off + int stride \<le> int (length values)"

definition combined ::
  "jsnum list \<Rightarrow> int \<Rightarrow> int \<Rightarrow> int \<Rightarrow> int \<Rightarrow> jsnum \<Rightarrow> jsnum \<Rightarrow> jsnum \<Rightarrow> jsnum \<Rightarrow> nat \<Rightarrow> jsnum" where
  "combined values oP o0 o1 oN sP s0 s1 sN j =
     sP * num_of (jsget values (oP + int j)) + s0 * num_of (jsget values (o0 + int j)) +
     s1 * num_of (jsget values (o1 + int j)) + sN * num_of (jsget values (oN + int j))"

section \<open>The Hamilton product on flat arrays\<close>

lemma fromArray_Some:
  "fromArray this array offset = Some q \<Longrightarrow>
     jsget array offset = Some (q_x q) \<and> jsget array (offset + 1) = Some (q_y q) \<and>
     jsget array (offset + 2) = Some (q_z q) \<and> jsget array (offset + 3) = Some (q_w q)"
  by (auto simp: fromArray_def onChangeCallback_def split: Option.bind_splits)

text \<open>
  C8.  For quaternions stored at any offsets of any arrays, \<open>multiplyQuaternionsFlat\<close>
  writes into \<open>dst\<close> at \<open>dstOffset\<close> exactly what \<open>toArray\<close> writes there of the result
  of \<open>multiplyQuaternions\<close> on the quaternions that \<open>fromArray\<close> reads at these offsets.
  Both evaluate the same expressions over the same operands in the same order: the
  equality holds for every number type, with no law of arithmetic used.
\<close>

theorem multiplyQuaternionsFlat_refines:
  fixes a b :: "('n::{plus,minus,times}) quaternion"
  assumes "fromArray p0 src0 srcOffset0 = Some a"
    and "fromArray p1 src1 srcOffset1 = Some b"
  shows "multiplyQuaternionsFlat dst dstOffset src0 srcOffset0 src1 srcOffset1 =
         toArray (multiplyQuaternions this a b) dst dstOffset"
  using fromArray_Some[OF assms(1)] fromArray_Some[OF assms(2)]
  by (simp add: multiplyQuaternionsFlat_def toArray_def multiplyQuaternions_def
      onChangeCallback_def Let_def)

theorem multiplyQuaternionsFlat_refines_witness:
  "fromArray \<lparr>q_x = 0, q_y = 0, q_z = 0, q_w = 1, q_changes = 0\<rparr> [9, 1, 2, 3, 4 :: real] 1
     = Some \<lparr>q_x = 1, q_y = 2, q_z = 3, q_w = 4, q_changes = 1\<rparr>
   \<and> fromArray \<lparr>q_x = 0, q_y = 0, q_z = 0, q_w = 1, q_changes = 0\<rparr> [5, 6, 7, 8, 0 :: real] 0
     = Some \<lparr>q_x = 5, q_y = 6, q_z = 7, q_w = 8, q_changes = 1\<rparr>
   \<and> multiplyQuaternionsFlat [0, 0, 0, 0, 0, 0] 2 [9, 1, 2, 3, 4 :: real] 1 [5, 6, 7, 8, 0] 0
     = Some [0, 0, 24, 48, 48, - 6]
   \<and> toArray (multiplyQuaternions \<lparr>q_x = 0, q_y = 0, q_z = 0, q_w = 1, q_changes = 0\<rparr>
                  \<lparr>q_x = 1, q_y = 2, q_z = 3, q_w = 4, q_changes = 1\<rparr>
                  \<lparr>q_x = 5, q_y = 6, q_z = 7, q_w = 8 :: real, q_changes = 1\<rparr>) [0, 0, 0, 0, 0, 0] 2
     = Some [0, 0, 24, 48, 48, - 6]"
proof -
  have a: "fromArray \<lparr>q_x = 0, q_y = 0, q_z = 0, q_w = 1, q_changes = 0\<rparr> [9, 1, 2, 3, 4 :: real] 1
     = Some \<lparr>q_x = 1, q_y = 2, q_z = 3, q_w = 4, q_changes = 1\<rparr>"
    by (simp add: fromArray_def jsget_def onChangeCallback_def)
  have b: "fromArray \<lparr>q_x = 0, q_y = 0, q_z = 0, q_w = 1, q_changes = 0\<rparr> [5, 6, 7, 8, 0 :: real] 0
     = Some \<lparr>q_x = 5, q_y = 6, q_z = 7, q_w = 8, q_changes = 1\<rparr>"
    by (simp add: fromArray_def jsget_def onChangeCallback_def)
  have c: "toArray (multiplyQuaternions \<lparr>q_x = 0, q_y = 0, q_z = 0, q_w = 1, q_changes = 0\<rparr>
                  \<lparr>q_x = 1, q_y = 2, q_z = 3, q_w = 4, q_changes = 1\<rparr>
                  \<lparr>q_x = 5, q_y = 6, q_z = 7, q_w = 8 :: real, q_changes = 1\<rparr>) [0, 0, 0, 0, 0, 0] 2
     = Some [0, 0, 24, 48, 48, - 6]"
    by (simp add: toArray_def multiplyQuaternions_def jsset_def onChangeCallback_def)
  show ?thesis
    using a b c multiplyQuaternionsFlat_refines [OF a b,
        where dst = "[0, 0, 0, 0, 0, 0]" and dstOffset = 2
          and this = "\<lparr>q_x = 0, q_y = 0, q_z = 0, q_w = 1, q_changes = 0\<rparr>"]
    by simp
qed

section \<open>Normalising a quaternion\<close>

lemma tiny_square_underflows: "of_product (1 / 2 ^ 600 * (1 / 2 ^ 600)) = Fin 0"
proof -
  have "(1 / 2 ^ 600 * (1 / 2 ^ 600) :: real) = 1 / 2 ^ 1200"
    by (simp add: power_add[symmetric])
  moreover have "(1 / 2 ^ 1200 :: real) \<le> 1 / 2 ^ 1075"
    by (intro divide_left_mono power_increasing) simp_all
  moreover have "(1 / 2 ^ 1200 :: real) < 2 ^ 1024 - 2 ^ 970"
  proof -
    have "(1 / 2 ^ 1200 :: real) \<le> 1" by simp
    moreover have "(2 :: real) ^ 970 * 2 \<le> 2 ^ 970 * 2 ^ 54"
      by (intro mult_left_mono) simp_all
    then have "(2 :: real) ^ 970 + 2 ^ 970 \<le> 2 ^ 1024"
      by (simp add: power_add[symmetric])
    moreover have "(1 :: real) < 2 ^ 970" by simp
    ultimately show ?thesis by linarith
  qed
  ultimately show ?thesis
    by (simp add: of_product_def overflow_bound_def underflow_bound_def)
qed

text \<open>
  C6, as amended.  \<open>length()\<close> is \<open>Math.sqrt(x*x + y*y + z*z + w*w)\<close> as the code
  computes it.  When it is \<open>0\<close>, as it is for \<open>(0, 0, 0, 0)\<close>, \<open>normalize\<close> sets the
  components to the identity \<open>(0, 0, 0, 1)\<close>; when it is not \<open>0\<close>, \<open>normalize\<close>
  multiplies each component by \<open>1 / length()\<close>.  This holds for every arithmetic and
  every \<open>Math.sqrt\<close>.  A quaternion that is not zero can have a computed length of
  \<open>0\<close>: the square of \<open>2^-600\<close> underflows, and \<open>(2^-600, 0, 0, 0)\<close> is set to the
  identity.
\<close>

theorem normalize_by_computed_length:
  fixes q :: "('n::{zero,one,plus,times,inverse}) quaternion"
  shows
   "length_quat Math_sqrt q =
      Math_sqrt (q_x q * q_x q + q_y q * q_y q + q_z q * q_z q + q_w q * q_w q)
    \<and> (length_quat Math_sqrt q = 0 \<longrightarrow>
         components (normalize_quat Math_sqrt q) = (0, 0, 0, 1))
    \<and> (length_quat Math_sqrt q \<noteq> 0 \<longrightarrow>
         components (normalize_quat Math_sqrt q) =
           (q_x q * (1 / length_quat Math_sqrt q), q_y q * (1 / length_quat Math_sqrt q),
            q_z q * (1 / length_quat Math_sqrt q), q_w q * (1 / length_quat Math_sqrt q)))
    \<and> length_quat sqrt \<lparr>q_x = 0, q_y = 0, q_z = 0, q_w = 0, q_changes = n\<rparr> = (0 :: real)
    \<and> length_quat js_sqrt \<lparr>q_x = 0, q_y = 0, q_z = 0, q_w = 0, q_changes = n\<rparr> = (0 :: jsnum)"
  by (simp add: normalize_quat_def components_def onChangeCallback_def length_quat_def Let_def
        zero_jsnum_def of_product_def of_sum_def overflow_bound_def underflow_bound_def)

theorem normalize_by_computed_length_witness:
  "length_quat sqrt \<lparr>q_x = 0, q_y = 0, q_z = 0, q_w = 2 :: real, q_changes = 0\<rparr> \<noteq> 0
   \<and> components (normalize_quat sqrt \<lparr>q_x = 0, q_y = 0, q_z = 0, q_w = 2 :: real, q_changes = 0\<rparr>)
       = (0, 0, 0, 1)
   \<and> length_quat sqrt \<lparr>q_x = 0, q_y = 0, q_z = 0, q_w = 0 :: real, q_changes = 0\<rparr> = 0
   \<and> components (normalize_quat sqrt \<lparr>q_x = 0, q_y = 0, q_z = 0, q_w = 0 :: real, q_changes = 0\<rparr>)
       = (0, 0, 0, 1)"
proof -
  have l: "length_quat sqrt \<lparr>q_x = 0, q_y = 0, q_z = 0, q_w = 2 :: real, q_changes = 0\<rparr> = 2"
    by (simp add: length_quat_def)
  have z: "length_quat sqrt \<lparr>q_x = 0, q_y = 0, q_z = 0, q_w = 0 :: real, q_changes = 0\<rparr> = 0"
    by (simp add: length_quat_def)
  show ?thesis
    using l z
      normalize_by_computed_length
        [where q = "\<lparr>q_x = 0, q_y = 0, q_z = 0, q_w = 2 :: real, q_changes = 0\<rparr>"
           and Math_sqrt = sqrt]
      normalize_by_computed_length
        [where q = "\<lparr>q_x = 0, q_y = 0, q_z = 0, q_w = 0 :: real, q_changes = 0\<rparr>"
           and Math_sqrt = sqrt]
    by simp
qed

theorem normalize_underflow_counterexample:
  "Fin (1 / 2 ^ 600) \<noteq> Fin 0
   \<and> length_quat js_sqrt
        \<lparr>q_x = Fin (1 / 2 ^ 600), q_y = Fin 0, q_z = Fin 0, q_w = Fin 0, q_changes = 0\<rparr> = Fin 0
   \<and> components (normalize_quat js_sqrt
        \<lparr>q_x = Fin (1 / 2 ^ 600), q_y = Fin 0, q_z = Fin 0, q_w = Fin 0, q_changes = 0\<rparr>)
     = (Fin 0, Fin 0, Fin 0, Fin 1)"
proof -
  have l: "length_quat js_sqrt
        \<lparr>q_x = Fin (1 / 2 ^ 600), q_y = Fin 0, q_z = Fin 0, q_w = Fin 0, q_changes = 0\<rparr> = Fin 0"
    by (simp add: length_quat_def tiny_square_underflows of_product_def of_sum_def
          overflow_bound_def underflow_bound_def)
  show ?thesis
    using l
    by (simp add: normalize_quat_def components_def onChangeCallback_def Let_def
          zero_jsnum_def one_jsnum_def)
qed

section \<open>A quaternion from Euler angles\<close>

text \<open>
  C5.  \<open>setFromEuler\<close> throws exactly when \<open>euler && euler.isEuler\<close> is falsy.  Handed
  an Euler whose order is none of the six, it does not throw, warns once, and leaves
  the four components as they were (the change callback still runs, unless \<open>update\<close>
  is \<open>false\<close>).
\<close>

theorem setFromEuler_throws_iff_not_Euler:
  "((\<exists>err. setFromEuler this arg update = Inl err) \<longleftrightarrow> \<not> isEuler_truthy arg)
   \<and> (e_order e \<notin> set RotationOrders \<longrightarrow>
        setFromEuler this (AnEuler e) update =
          Inr (if update \<noteq> Some False then onChangeCallback this else this,
               [''THREE.Quaternion: .setFromEuler() encountered an unknown order: '' @ e_order e])
        \<and> components (if update \<noteq> Some False then onChangeCallback this else this)
            = components this)"
  by (cases arg)
     (auto simp: setFromEuler_def RotationOrders_def Let_def components_def onChangeCallback_def)

theorem setFromEuler_throws_iff_not_Euler_witness:
  "e_order \<lparr>e_x = 1, e_y = 2, e_z = 3, e_order = ''ABC'', e_changes = 0\<rparr> \<notin> set RotationOrders
   \<and> setFromEuler \<lparr>q_x = 5, q_y = 6, q_z = 7, q_w = 8, q_changes = 0\<rparr>
        (AnEuler \<lparr>e_x = 1, e_y = 2, e_z = 3, e_order = ''ABC'', e_changes = 0\<rparr>) None
      = Inr (\<lparr>q_x = 5, q_y = 6, q_z = 7, q_w = 8, q_changes = 1\<rparr>,
             [''THREE.Quaternion: .setFromEuler() encountered an unknown order: ABC''])
   \<and> (\<exists>err. setFromEuler \<lparr>q_x = 5, q_y = 6, q_z = 7, q_w = 8, q_changes = 0\<rparr> JsNull None = Inl err)"
proof -
  have h: "e_order \<lparr>e_x = 1, e_y = 2, e_z = 3, e_order = ''ABC'', e_changes = 0\<rparr> \<notin> set RotationOrders"
    by (simp add: RotationOrders_def)
  show ?thesis
    using h setFromEuler_throws_iff_not_Euler
      [where e = "\<lparr>e_x = 1, e_y = 2, e_z = 3, e_order = ''ABC'', e_changes = 0\<rparr>"
         and this = "\<lparr>q_x = 5, q_y = 6, q_z = 7, q_w = 8, q_changes = 0\<rparr>"
         and update = None and arg = JsNull]
    by (simp add: onChangeCallback_def)
qed

section \<open>Euler angles from a rotation matrix\<close>

lemma rotation_entries:
  "length te = 16 \<Longrightarrow>
     jsget te 0 = Some (te ! 0) \<and> jsget te 1 = Some (te ! 1) \<and> jsget te 2 = Some (te ! 2) \<and>
     jsget te 4 = Some (te ! 4) \<and> jsget te 5 = Some (te ! 5) \<and> jsget te 6 = Some (te ! 6) \<and>
     jsget te 8 = Some (te ! 8) \<and> jsget te 9 = Some (te ! 9) \<and> jsget te 10 = Some (te ! 10)"
  by (simp add: jsget_def)

text \<open>
  C4.  For a matrix of 16 elements whose element under \<open>asin\<close> has an absolute value
  of at least \<open>0.9999999\<close>, \<open>setFromRotationMatrix\<close> returns without a warning, with
  one angle the \<open>asin\<close>, one angle the \<open>atan2\<close> of the fallback branch and the third
  angle \<open>0\<close>: for each of the six orders, the element and the angles of the source.
\<close>

theorem setFromRotationMatrix_gimbal_lock:
  assumes "length (elements m) = 16"
  shows
   "(9999999 / 10000000 \<le> \<bar>elements m ! 8\<bar> \<longrightarrow>
       (\<exists>e'. setFromRotationMatrix e m (Some ''XYZ'') update = Some (e', [])
          \<and> e_y e' = arcsin (clamp (elements m ! 8) (- 1) 1)
          \<and> e_x e' = atan2 (elements m ! 6) (elements m ! 5) \<and> e_z e' = 0))
  \<and> (9999999 / 10000000 \<le> \<bar>elements m ! 9\<bar> \<longrightarrow>
       (\<exists>e'. setFromRotationMatrix e m (Some ''YXZ'') update = Some (e', [])
          \<and> e_x e' = arcsin (- clamp (elements m ! 9) (- 1) 1)
          \<and> e_y e' = atan2 (- (elements m ! 2)) (elements m ! 0) \<and> e_z e' = 0))
  \<and> (9999999 / 10000000 \<le> \<bar>elements m ! 6\<bar> \<longrightarrow>
       (\<exists>e'. setFromRotationMatrix e m (Some ''ZXY'') update = Some (e', [])
          \<and> e_x e' = arcsin (clamp (elements m ! 6) (- 1) 1)
          \<and> e_z e' = atan2 (elements m ! 1) (elements m ! 0) \<and> e_y e' = 0))
  \<and> (9999999 / 10000000 \<le> \<bar>elements m ! 2\<bar> \<longrightarrow>
       (\<exists>e'. setFromRotationMatrix e m (Some ''ZYX'') update = Some (e', [])
          \<and> e_y e' = arcsin (- clamp (elements m ! 2) (- 1) 1)
          \<and> e_z e' = atan2 (- (elements m ! 4)) (elements m ! 5) \<and> e_x e' = 0))
  \<and> (9999999 / 10000000 \<le> \<bar>elements m ! 1\<bar> \<longrightarrow>
       (\<exists>e'. setFromRotationMatrix e m (Some ''YZX'') update = Some (e', [])
          \<and> e_z e' = arcsin (clamp (elements m ! 1) (- 1) 1)
          \<and> e_y e' = atan2 (elements m ! 8) (elements m ! 10) \<and> e_x e' = 0))
  \<and> (9999999 / 10000000 \<le> \<bar>elements m ! 4\<bar> \<longrightarrow>
       (\<exists>e'. setFromRotationMatrix e m (Some ''XZY'') update = Some (e', [])
          \<and> e_z e' = arcsin (- clamp (elements m ! 4) (- 1) 1)
          \<and> e_x e' = atan2 (- (elements m ! 9)) (elements m ! 10) \<and> e_y e' = 0))"
  using rotation_entries[OF assms]
  by (simp add: setFromRotationMatrix_def Let_def euler_onChangeCallback_def)

theorem setFromRotationMatrix_gimbal_lock_witness:
  "length [0, 0, - 1, 0,  0, 1, 0, 0,  1, 0, 0, 0,  0, 0, 0, 1 :: real] = 16
   \<and> 9999999 / 10000000 \<le> \<bar>[0, 0, - 1, 0,  0, 1, 0, 0,  1, 0, 0, 0,  0, 0, 0, 1 :: real] ! 8\<bar>
   \<and> (\<exists>e'. setFromRotationMatrix \<lparr>e_x = 7, e_y = 7, e_z = 7, e_order = ''ZYX'', e_changes = 0\<rparr>
              \<lparr>elements = [0, 0, - 1, 0,  0, 1, 0, 0,  1, 0, 0, 0,  0, 0, 0, 1]\<rparr> (Some ''XYZ'') None
            = Some (e', [])
          \<and> e_y e' = pi / 2 \<and> e_x e' = 0 \<and> e_z e' = 0)
   \<and> 9999999 / 10000000 \<le> \<bar>[0, 0, - 1, 0,  0, 1, 0, 0,  1, 0, 0, 0,  0, 0, 0, 1 :: real] ! 2\<bar>
   \<and> (\<exists>e'. setFromRotationMatrix \<lparr>e_x = 7, e_y = 7, e_z = 7, e_order = ''ZYX'', e_changes = 0\<rparr>
              \<lparr>elements = [0, 0, - 1, 0,  0, 1, 0, 0,  1, 0, 0, 0,  0, 0, 0, 1]\<rparr> (Some ''ZYX'') None
            = Some (e', [])
          \<and> e_y e' = pi / 2 \<and> e_z e' = 0 \<and> e_x e' = 0)
   \<and> 9999999 / 10000000 \<le> \<bar>[1, 0, 0, 0,  0, 0, 1, 0,  0, - 1, 0, 0,  0, 0, 0, 1 :: real] ! 9\<bar>
   \<and> (\<exists>e'. setFromRotationMatrix \<lparr>e_x = 7, e_y = 7, e_z = 7, e_order = ''ZYX'', e_changes = 0\<rparr>
              \<lparr>elements = [1, 0, 0, 0,  0, 0, 1, 0,  0, - 1, 0, 0,  0, 0, 0, 1]\<rparr> (Some ''YXZ'') None
            = Some (e', [])
          \<and> e_x e' = pi / 2 \<and> e_y e' = 0 \<and> e_z e' = 0)
   \<and> 9999999 / 10000000 \<le> \<bar>[1, 0, 0, 0,  0, 0, 1, 0,  0, - 1, 0, 0,  0, 0, 0, 1 :: real] ! 6\<bar>
   \<and> (\<exists>e'. setFromRotationMatrix \<lparr>e_x = 7, e_y = 7, e_z = 7, e_order = ''ZYX'', e_changes = 0\<rparr>
              \<lparr>elements = [1, 0, 0, 0,  0, 0, 1, 0,  0, - 1, 0, 0,  0, 0, 0, 1]\<rparr> (Some ''ZXY'') None
            = Some (e', [])
          \<and> e_x e' = pi / 2 \<and> e_z e' = 0 \<and> e_y e' = 0)
   \<and> 9999999 / 10000000 \<le> \<bar>[0, 1, 0, 0,  - 1, 0, 0, 0,  0, 0, 1, 0,  0, 0, 0, 1 :: real] ! 1\<bar>
   \<and> (\<exists>e'. setFromRotationMatrix \<lparr>e_x = 7, e_y = 7, e_z = 7, e_order = ''ZYX'', e_changes = 0\<rparr>
              \<lparr>elements = [0, 1, 0, 0,  - 1, 0, 0, 0,  0, 0, 1, 0,  0, 0, 0, 1]\<rparr> (Some ''YZX'') None
            = Some (e', [])
          \<and> e_z e' = pi / 2 \<and> e_y e' = 0 \<and> e_x e' = 0)
   \<and> 9999999 / 10000000 \<le> \<bar>[0, 1, 0, 0,  - 1, 0, 0, 0,  0, 0, 1, 0,  0, 0, 0, 1 :: real] ! 4\<bar>
   \<and> (\<exists>e'. setFromRotationMatrix \<lparr>e_x = 7, e_y = 7, e_z = 7, e_order = ''ZYX'', e_changes = 0\<rparr>
              \<lparr>elements = [0, 1, 0, 0,  - 1, 0, 0, 0,  0, 0, 1, 0,  0, 0, 0, 1]\<rparr> (Some ''XZY'') None
            = Some (e', [])
          \<and> e_z e' = pi / 2 \<and> e_x e' = 0 \<and> e_y e' = 0)"
  using
    setFromRotationMatrix_gimbal_lock
      [where m = "\<lparr>elements = [0, 0, - 1, 0,  0, 1, 0, 0,  1, 0, 0, 0,  0, 0, 0, 1]\<rparr>"
         and e = "\<lparr>e_x = 7, e_y = 7, e_z = 7, e_order = ''ZYX'', e_changes = 0\<rparr>" and update = None]
    setFromRotationMatrix_gimbal_lock
      [where m = "\<lparr>elements = [1, 0, 0, 0,  0, 0, 1, 0,  0, - 1, 0, 0,  0, 0, 0, 1]\<rparr>"
         and e = "\<lparr>e_x = 7, e_y = 7, e_z = 7, e_order = ''ZYX'', e_changes = 0\<rparr>" and update = None]
    setFromRotationMatrix_gimbal_lock
      [where m = "\<lparr>elements = [0, 1, 0, 0,  - 1, 0, 0, 0,  0, 0, 1, 0,  0, 0, 0, 1]\<rparr>"
         and e = "\<lparr>e_x = 7, e_y = 7, e_z = 7, e_order = ''ZYX'', e_changes = 0\<rparr>" and update = None]
  by (simp add: clamp_def atan2_def)

text \<open>
  C9, as amended.  For an order string that is not empty and is none of the six,
  \<open>setFromRotationMatrix\<close> leaves the three angles as they were, sets \<open>_order\<close> to
  that string, warns, and runs the change callback unless \<open>update\<close> is \<open>false\<close>.
  The empty string is excluded: \<open>order || this._order\<close> replaces it by the order the
  Euler has, so that the angles are computed for that order.
\<close>

theorem setFromRotationMatrix_unknown_order:
  assumes "length (elements m) = 16" and "ord \<notin> set RotationOrders" and "ord \<noteq> []"
  shows "setFromRotationMatrix e m (Some ord) update =
           Some (if update \<noteq> Some False then euler_onChangeCallback (e\<lparr>e_order := ord\<rparr>)
                 else e\<lparr>e_order := ord\<rparr>,
                 [''THREE.Euler: .setFromRotationMatrix() encountered an unknown order: '' @ ord])"
  using rotation_entries[OF assms(1)] assms(2,3)
  by (simp add: setFromRotationMatrix_def Let_def RotationOrders_def)

theorem setFromRotationMatrix_unknown_order_witness:
  "length (elements \<lparr>elements = [1, 0, 0, 0,  0, 1, 0, 0,  0, 0, 1, 0,  0, 0, 0, 1]\<rparr>) = 16
   \<and> ''ABC'' \<notin> set RotationOrders \<and> ''ABC'' \<noteq> []
   \<and> setFromRotationMatrix \<lparr>e_x = 5, e_y = 5, e_z = 5, e_order = ''XYZ'', e_changes = 0\<rparr>
        \<lparr>elements = [1, 0, 0, 0,  0, 1, 0, 0,  0, 0, 1, 0,  0, 0, 0, 1]\<rparr> (Some ''ABC'') None
      = Some (\<lparr>e_x = 5, e_y = 5, e_z = 5, e_order = ''ABC'', e_changes = 1\<rparr>,
              [''THREE.Euler: .setFromRotationMatrix() encountered an unknown order: ABC''])"
proof -
  have h: "''ABC'' \<notin> set RotationOrders" by (simp add: RotationOrders_def)
  show ?thesis
    using h setFromRotationMatrix_unknown_order
      [where m = "\<lparr>elements = [1, 0, 0, 0,  0, 1, 0, 0,  0, 0, 1, 0,  0, 0, 0, 1]\<rparr>"
         and ord = "''ABC''" and update = None
         and e = "\<lparr>e_x = 5, e_y = 5, e_z = 5, e_order = ''XYZ'', e_changes = 0\<rparr>"]
    by (simp add: euler_onChangeCallback_def)
qed

theorem setFromRotationMatrix_empty_order_counterexample:
  "[] \<notin> set RotationOrders
   \<and> setFromRotationMatrix \<lparr>e_x = 5, e_y = 5, e_z = 5, e_order = ''XYZ'', e_changes = 0\<rparr>
        \<lparr>elements = [1, 0, 0, 0,  0, 1, 0, 0,  0, 0, 1, 0,  0, 0, 0, 1]\<rparr> (Some []) None
      = Some (\<lparr>e_x = 0, e_y = 0, e_z = 0, e_order = ''XYZ'', e_changes = 1\<rparr>, [])"
  by (simp add: setFromRotationMatrix_def Let_def RotationOrders_def jsget_def clamp_def atan2_def
                euler_onChangeCallback_def)

section \<open>The angle between two quaternions\<close>

lemma dot_commute: "dot a b = dot b a"
  by (simp add: dot_def mult.commute)

lemma dot_self_nonneg: "0 \<le> dot q q"
  by (simp add: dot_def)

lemma arccos_eq_0_iff: "0 \<le> y \<Longrightarrow> y \<le> 1 \<Longrightarrow> arccos y = 0 \<longleftrightarrow> y = 1"
proof
  assume b: "0 \<le> y" "y \<le> 1" and "arccos y = 0"
  then have "cos (arccos y) = 1" by simp
  with b show "y = 1" by (simp add: cos_arccos)
qed simp

text \<open>
  C7, as amended.  \<open>q.angleTo(q)\<close> is \<open>0\<close> exactly when \<open>q.dot(q)\<close> is at least
  \<open>1\<close>, as it is for a quaternion of unit length; \<open>angleTo\<close> is symmetric for all
  quaternions.  For the quaternion \<open>(0, 0, 0, 0)\<close> the angle to itself is \<open>pi\<close>.
\<close>

theorem angleTo_self_and_symmetric:
  "(angleTo q q = 0 \<longleftrightarrow> 1 \<le> dot q q) \<and> angleTo a b = angleTo b a"
proof
  have "0 \<le> dot q q" by (rule dot_self_nonneg)
  then have c: "\<bar>clamp (dot q q) (- 1) 1\<bar> = min 1 (dot q q)"
    by (simp add: clamp_def max_def min_def)
  have "arccos (min 1 (dot q q)) = 0 \<longleftrightarrow> min 1 (dot q q) = 1"
    using \<open>0 \<le> dot q q\<close> by (intro arccos_eq_0_iff) simp_all
  then show "angleTo q q = 0 \<longleftrightarrow> 1 \<le> dot q q"
    by (simp add: angleTo_def c min_def)
  show "angleTo a b = angleTo b a"
    by (simp add: angleTo_def dot_commute)
qed

theorem angleTo_self_counterexample:
  "angleTo \<lparr>q_x = 0, q_y = 0, q_z = 0, q_w = 0, q_changes = 0\<rparr>
           \<lparr>q_x = 0, q_y = 0, q_z = 0, q_w = 0, q_changes = 0\<rparr> = pi
   \<and> angleTo \<lparr>q_x = 0, q_y = 0, q_z = 0, q_w = 0, q_changes = 0\<rparr>
           \<lparr>q_x = 0, q_y = 0, q_z = 0, q_w = 0, q_changes = 0\<rparr> \<noteq> 0"
  by (simp add: angleTo_def dot_def clamp_def)

section \<open>Spherical interpolation and the double cover\<close>

lemma dot_negated: "dot a (negated q) = - dot a q"
  by (simp add: dot_def negated_def)

lemma negated_sel [simp]:
  "q_x (negated q) = - q_x q" "q_y (negated q) = - q_y q"
  "q_z (negated q) = - q_z q" "q_w (negated q) = - q_w q"
  by (simp_all add: negated_def)

lemma cosHalfTheta_negated: "cosHalfTheta a (negated q) = - cosHalfTheta a q"
  by (simp add: cosHalfTheta_def)

text \<open>
  The components of \<open>slerp\<close> for \<open>t\<close> other than \<open>0\<close> and \<open>1\<close>: the sign test is on
  the cosine summed as the code sums it.
\<close>

lemma slerp_components:
  assumes "t \<noteq> 0" and "t \<noteq> 1"
  shows "components (slerp a q t) =
           (if cosHalfTheta a q < 0
            then slerp_tail (q_x a) (q_y a) (q_z a) (q_w a)
                   (- q_x q) (- q_y q) (- q_z q) (- q_w q) (- cosHalfTheta a q) t
            else slerp_tail (q_x a) (q_y a) (q_z a) (q_w a)
                   (q_x q) (q_y q) (q_z q) (q_w q) (cosHalfTheta a q) t)"
  unfolding slerp_def Let_def cosHalfTheta_def[symmetric]
  using assms
  by (simp add: components_def slerp_tail_def Let_def copy_def onChangeCallback_def
                normalize_quat_def length_quat_def)

text \<open>
  C2, as amended.  For \<open>t\<close> other than \<open>1\<close> and quaternions for which the cosine
  that \<open>slerp\<close> computes, \<open>w * qb.w + x * qb.x + y * qb.y + z * qb.z\<close>, is not \<open>0\<close>,
  \<open>a.slerp(q, t)\<close> and \<open>a.slerp(-q, t)\<close> have the same components; and
  \<open>a.angleTo(q)\<close> equals \<open>a.angleTo(-q)\<close> for all quaternions.  At \<open>t = 1\<close> the
  target is copied as it is, and at a cosine of \<open>0\<close> neither target is negated.
\<close>

theorem slerp_angleTo_double_cover:
  "(t \<noteq> 1 \<and> cosHalfTheta a q \<noteq> 0 \<longrightarrow>
      components (slerp a q t) = components (slerp a (negated q) t))
   \<and> angleTo a (negated q) = angleTo a q"
proof (intro conjI impI)
  assume "t \<noteq> 1 \<and> cosHalfTheta a q \<noteq> 0"
  then have t1: "t \<noteq> 1" and nz: "cosHalfTheta a q \<noteq> 0" by simp_all
  show "components (slerp a q t) = components (slerp a (negated q) t)"
  proof (cases "t = 0")
    case True
    then show ?thesis by (simp add: slerp_def)
  next
    case False
    show ?thesis
      using nz by (simp add: slerp_components[OF False t1] cosHalfTheta_negated)
  qed
next
  show "angleTo a (negated q) = angleTo a q"
    by (simp add: angleTo_def dot_negated clamp_def max_def min_def)
qed

theorem slerp_double_cover_counterexample:
  "components (slerp \<lparr>q_x = 0, q_y = 0, q_z = 0, q_w = 1, q_changes = 0\<rparr>
                     \<lparr>q_x = 0, q_y = 0, q_z = 0, q_w = 1, q_changes = 0\<rparr> 1)
     \<noteq> components (slerp \<lparr>q_x = 0, q_y = 0, q_z = 0, q_w = 1, q_changes = 0\<rparr>
                     (negated \<lparr>q_x = 0, q_y = 0, q_z = 0, q_w = 1, q_changes = 0\<rparr>) 1)
   \<and> cosHalfTheta \<lparr>q_x = 1, q_y = 0, q_z = 0, q_w = 0, q_changes = 0\<rparr>
                   \<lparr>q_x = 0, q_y = 1, q_z = 0, q_w = 0, q_changes = 0\<rparr> = 0
   \<and> components (slerp \<lparr>q_x = 1, q_y = 0, q_z = 0, q_w = 0, q_changes = 0\<rparr>
                     \<lparr>q_x = 0, q_y = 1, q_z = 0, q_w = 0, q_changes = 0\<rparr> (1 / 2))
     \<noteq> components (slerp \<lparr>q_x = 1, q_y = 0, q_z = 0, q_w = 0, q_changes = 0\<rparr>
                     (negated \<lparr>q_x = 0, q_y = 1, q_z = 0, q_w = 0, q_changes = 0\<rparr>) (1 / 2))"
proof -
  have e: "\<not> (1 :: real) \<le> EPSILON" by (simp add: EPSILON_def)
  have s: "sin (pi / 4) \<noteq> 0" by (simp add: sin_45)
  show ?thesis
    using e s
    by (simp add: slerp_def negated_def components_def Let_def copy_def onChangeCallback_def
                  atan2_def cosHalfTheta_def)
qed

theorem slerp_angleTo_double_cover_witness:
  "(1 / 2 :: real) \<noteq> 1
   \<and> cosHalfTheta \<lparr>q_x = 1, q_y = 0, q_z = 0, q_w = 0, q_changes = 0\<rparr>
          \<lparr>q_x = 3 / 5, q_y = 4 / 5, q_z = 0, q_w = 0, q_changes = 0\<rparr> \<noteq> 0
   \<and> components (slerp \<lparr>q_x = 1, q_y = 0, q_z = 0, q_w = 0, q_changes = 0\<rparr>
                     \<lparr>q_x = 3 / 5, q_y = 4 / 5, q_z = 0, q_w = 0, q_changes = 0\<rparr> (1 / 2))
     = components (slerp \<lparr>q_x = 1, q_y = 0, q_z = 0, q_w = 0, q_changes = 0\<rparr>
                     (negated \<lparr>q_x = 3 / 5, q_y = 4 / 5, q_z = 0, q_w = 0, q_changes = 0\<rparr>) (1 / 2))"
proof -
  have d: "cosHalfTheta \<lparr>q_x = 1, q_y = 0, q_z = 0, q_w = 0, q_changes = 0\<rparr>
          \<lparr>q_x = 3 / 5, q_y = 4 / 5, q_z = 0, q_w = 0, q_changes = 0\<rparr> \<noteq> 0"
    by (simp add: cosHalfTheta_def)
  show ?thesis
    using d slerp_angleTo_double_cover
      [where a = "\<lparr>q_x = 1, q_y = 0, q_z = 0, q_w = 0, q_changes = 0\<rparr>"
         and q = "\<lparr>q_x = 3 / 5, q_y = 4 / 5, q_z = 0, q_w = 0, q_changes = 0\<rparr>"
         and t = "1 / 2"]
    by simp
qed

section \<open>The cubic interpolant\<close>

subsection \<open>The loop\<close>

lemma jsset_next:
  "i \<le> length result \<Longrightarrow>
     \<exists>r. jsset result (int i) v = Some r \<and> take (Suc i) r = take i result @ [v] \<and>
         (\<forall>n > i. drop n r = drop n result)"
proof (cases "i < length result")
  case True
  then show ?thesis
    by (auto simp: jsset_def take_Suc_conv_app_nth drop_update_cancel)
next
  case False
  assume "i \<le> length result"
  with False have "i = length result" by simp
  then show ?thesis by (auto simp: jsset_def)
qed

lemma interpolate_loop_result:
  "i \<le> stride \<Longrightarrow> i \<le> length result \<Longrightarrow>
    interpolate_loop values stride oP o0 o1 oN sP s0 s1 sN i result =
      Some (take i result @ map (combined values oP o0 o1 oN sP s0 s1 sN) [i..<stride]
            @ drop stride result)"
proof (induction "stride - i" arbitrary: i result)
  case 0
  then have "i = stride" by simp
  then show ?case
    by (subst interpolate_loop.simps) simp
next
  case (Suc k)
  then have lt: "i < stride" by simp
  let ?v = "combined values oP o0 o1 oN sP s0 s1 sN i"
  obtain r where r: "jsset result (int i) ?v = Some r"
    "take (Suc i) r = take i result @ [?v]" "\<forall>n > i. drop n r = drop n result"
    using jsset_next[OF Suc.prems(2)] by blast
  have "length (take (Suc i) r) = Suc i"
    using r(2) Suc.prems(2) by simp
  then have len: "Suc i \<le> length r" by simp
  have IH: "interpolate_loop values stride oP o0 o1 oN sP s0 s1 sN (Suc i) r =
      Some (take (Suc i) r @ map (combined values oP o0 o1 oN sP s0 s1 sN) [Suc i..<stride]
            @ drop stride r)"
    using Suc.hyps(1)[of "Suc i" r] Suc.hyps(2) lt len by simp
  have "interpolate_loop values stride oP o0 o1 oN sP s0 s1 sN i result =
        interpolate_loop values stride oP o0 o1 oN sP s0 s1 sN (Suc i) r"
    using lt r(1)
    by (subst interpolate_loop.simps) (simp add: combined_def)
  also have "\<dots> = Some (take i result @ map (combined values oP o0 o1 oN sP s0 s1 sN) [i..<stride]
            @ drop stride result)"
    using IH r(2,3) lt by (simp add: upt_conv_Cons)
  finally show ?case .
qed

subsection \<open>Finite numbers\<close>

lemma bounds:
  "0 < underflow_bound" "0 < max_double" "max_double + 2 < overflow_bound"
  by (simp_all add: underflow_bound_def max_double_def overflow_bound_def)

lemma of_sum_finite: "\<bar>r\<bar> < overflow_bound \<Longrightarrow> of_sum r = Fin r"
  by (simp add: of_sum_def)

lemma of_product_zero [simp]: "of_product 0 = Fin 0"
  using bounds by (simp add: of_product_def)

lemma of_product_finite: "\<bar>r\<bar> < overflow_bound \<Longrightarrow> \<exists>r'. of_product r = Fin r'"
  by (simp add: of_product_def)

lemma of_product_in_range: "in_range r \<Longrightarrow> of_product r = Fin r"
  using bounds by (auto simp: of_product_def in_range_def)

lemma basis_at_zero:
  assumes wp: "\<bar>wp\<bar> * 2 \<le> max_double" and wn: "\<bar>wn\<bar> \<le> max_double"
  shows "- Fin wp * (Fin 0 * Fin 0 * Fin 0) + Fin 2 * Fin wp * (Fin 0 * Fin 0) - Fin wp * Fin 0 = Fin 0"
    and "(Fin 1 + Fin wp) * (Fin 0 * Fin 0 * Fin 0) + (Fin (- 1.5) - Fin 2 * Fin wp) * (Fin 0 * Fin 0)
           + (Fin (- 0.5) + Fin wp) * Fin 0 + Fin 1 = Fin 1"
    and "(Fin (- 1) - Fin wn) * (Fin 0 * Fin 0 * Fin 0) + (Fin 1.5 + Fin wn) * (Fin 0 * Fin 0)
           + Fin 0.5 * Fin 0 = Fin 0"
    and "Fin wn * (Fin 0 * Fin 0 * Fin 0) - Fin wn * (Fin 0 * Fin 0) = Fin 0"
proof -
  have b: "0 < overflow_bound" "(1 :: real) < overflow_bound" using bounds by linarith+
  have z: "of_sum 0 = Fin 0" "of_sum 1 = Fin 1" using b by (simp_all add: of_sum_def)
  obtain d where d: "Fin 2 * Fin wp = Fin d" "\<bar>d\<bar> \<le> max_double"
  proof (cases "\<bar>2 * wp\<bar> \<le> underflow_bound")
    case True
    then have "Fin 2 * Fin wp = Fin 0" using wp bounds by (simp add: of_product_def)
    then show ?thesis using that[of 0] bounds by simp
  next
    case False
    then have "Fin 2 * Fin wp = Fin (2 * wp)" using wp bounds by (simp add: of_product_def)
    then show ?thesis using that[of "2 * wp"] wp by simp
  qed
  have wp': "\<bar>wp\<bar> \<le> max_double" using wp bounds by linarith
  have "of_sum (1 + wp) = Fin (1 + wp)"
    by (rule of_sum_finite) (use wp' bounds in linarith)
  then have s1: "Fin 1 + Fin wp = Fin (1 + wp)" by simp
  have "of_sum (- 1.5 + - d) = Fin (- 1.5 + - d)"
    by (rule of_sum_finite) (use d(2) bounds in linarith)
  then have s2: "Fin (- 1.5) - Fin d = Fin (- 1.5 + - d)"
    by (simp add: minus_jsnum_def)
  have "of_sum (- 0.5 + wp) = Fin (- 0.5 + wp)"
    by (rule of_sum_finite) (use wp' bounds in linarith)
  then have s3: "Fin (- 0.5) + Fin wp = Fin (- 0.5 + wp)" by simp
  have "of_sum (- 1 + - wn) = Fin (- 1 + - wn)"
    by (rule of_sum_finite) (use wn bounds in linarith)
  then have s4: "Fin (- 1) - Fin wn = Fin (- 1 + - wn)"
    by (simp add: minus_jsnum_def)
  have "of_sum (1.5 + wn) = Fin (1.5 + wn)"
    by (rule of_sum_finite) (use wn bounds in linarith)
  then have s5: "Fin 1.5 + Fin wn = Fin (1.5 + wn)" by simp
  show "- Fin wp * (Fin 0 * Fin 0 * Fin 0) + Fin 2 * Fin wp * (Fin 0 * Fin 0) - Fin wp * Fin 0 = Fin 0"
    unfolding d(1) by (simp add: minus_jsnum_def z)
  show "(Fin 1 + Fin wp) * (Fin 0 * Fin 0 * Fin 0) + (Fin (- 1.5) - Fin 2 * Fin wp) * (Fin 0 * Fin 0)
           + (Fin (- 0.5) + Fin wp) * Fin 0 + Fin 1 = Fin 1"
    unfolding d(1) s1 s2 s3 by (simp add: z)
  show "(Fin (- 1) - Fin wn) * (Fin 0 * Fin 0 * Fin 0) + (Fin 1.5 + Fin wn) * (Fin 0 * Fin 0)
           + Fin 0.5 * Fin 0 = Fin 0"
    unfolding s4 s5 by (simp add: z)
  show "Fin wn * (Fin 0 * Fin 0 * Fin 0) - Fin wn * (Fin 0 * Fin 0) = Fin 0"
    by (simp add: minus_jsnum_def z)
qed

lemma quotient_at_t0:
  assumes "a \<noteq> b"
  shows "(Fin a - Fin a) / (Fin b - Fin a) = Fin 0"
proof -
  have "Fin a - Fin a = Fin 0"
    using bounds by (simp add: minus_jsnum_def of_sum_def)
  moreover have "Fin b - Fin a = Fin (b - a) \<or> Fin b - Fin a = PInf \<or> Fin b - Fin a = NInf"
    by (simp add: minus_jsnum_def of_sum_def)
  ultimately show ?thesis using assms by auto
qed

lemma double_read:
  assumes "rows_in_range values stride off" and "list_all is_double values" and "j < stride"
  shows "\<exists>r. jsget values (off + int j) = Some (Fin r) \<and> values ! nat (off + int j) = Fin r
             \<and> in_range r"
proof -
  have i: "0 \<le> off + int j" "nat (off + int j) < length values"
    using assms(1,3) by (auto simp: rows_in_range_def)
  then have "is_double (values ! nat (off + int j))"
    using assms(2) by (simp add: list_all_length)
  then obtain r where "values ! nat (off + int j) = Fin r" "in_range r"
    by (cases "values ! nat (off + int j)") simp_all
  then show ?thesis using i by (simp add: jsget_def)
qed

lemma combined_at_p0:
  assumes "rows_in_range values stride oP" "rows_in_range values stride o0"
    and "rows_in_range values stride o1" "rows_in_range values stride oN"
    and "list_all is_double values" and "j < stride"
  shows "combined values oP o0 o1 oN (Fin 0) (Fin 1) (Fin 0) (Fin 0) j = values ! (nat o0 + j)"
proof -
  obtain vP where vP: "jsget values (oP + int j) = Some (Fin vP)"
    using double_read[OF assms(1,5,6)] by blast
  obtain v0 where v0: "jsget values (o0 + int j) = Some (Fin v0)"
    "values ! nat (o0 + int j) = Fin v0" "in_range v0"
    using double_read[OF assms(2,5,6)] by blast
  obtain v1 where v1: "jsget values (o1 + int j) = Some (Fin v1)"
    using double_read[OF assms(3,5,6)] by blast
  obtain vN where vN: "jsget values (oN + int j) = Some (Fin vN)"
    using double_read[OF assms(4,5,6)] by blast
  have "\<bar>v0\<bar> < overflow_bound" using v0(3) bounds by (simp add: in_range_def)
  then have s: "of_sum v0 = Fin v0" by (rule of_sum_finite)
  have "0 \<le> o0" using assms(2) by (simp add: rows_in_range_def)
  then have n: "nat (o0 + int j) = nat o0 + j" by (simp add: nat_add_distrib)
  show ?thesis
    using v0(2) by (simp add: combined_def vP v0(1) v1 vN of_product_in_range[OF v0(3)] s n)
qed

lemma map_nth_slice:
  "n + k \<le> length xs \<Longrightarrow> map (\<lambda>j. xs ! (n + j)) [0..<k] = take k (drop n xs)"
  by (rule nth_equalityI) simp_all

text \<open>
  C10, as amended.  With \<open>t0\<close> and \<open>t1\<close> finite and different and \<open>t = t0\<close>,
  \<open>interpolate_\<close> writes the sample row \<open>i1 - 1\<close> into the first \<open>stride\<close> places of
  the result buffer and changes nothing else, whatever the cached weights are among
  the finite doubles, \<open>2 * weightPrev\<close> not overflowing.  The samples are finite
  doubles, \<open>i1\<close> is at least \<open>1\<close>, and the rows \<open>i1 - 1\<close> and \<open>i1\<close> and the rows at
  the two cached offsets lie inside the sample values.  With a cached weight that is
  infinite, as \<open>intervalChanged_\<close> caches it between two equal sample positions, or
  with the finite weight \<open>2^1023\<close>, whose double overflows, the row written is NaN.
\<close>

theorem interpolate_at_t0_is_previous_row:
  assumes "t0 = Fin a" and "t1 = Fin b" and "a \<noteq> b"
    and "weightPrev c = Fin wp" and "\<bar>wp\<bar> * 2 \<le> max_double"
    and "weightNext c = Fin wn" and "\<bar>wn\<bar> \<le> max_double"
    and "list_all is_double (sampleValues c)"
    and "1 \<le> i1"
    and "(i1 + 1) * int (valueSize c) \<le> int (length (sampleValues c))"
    and "rows_in_range (sampleValues c) (valueSize c) (offsetPrev c)"
    and "rows_in_range (sampleValues c) (valueSize c) (offsetNext c)"
  shows "interpolate c i1 t0 t0 t1 =
           Some (c\<lparr>resultBuffer := row (sampleValues c) (valueSize c) (nat (i1 - 1))
                                    @ drop (valueSize c) (resultBuffer c)\<rparr>)"
proof -
  let ?s = "valueSize c" and ?v = "sampleValues c"
  have o1: "rows_in_range ?v ?s (i1 * int ?s)"
    using assms(9,10) by (simp add: rows_in_range_def algebra_simps)
  have o0: "rows_in_range ?v ?s (i1 * int ?s - int ?s)"
  proof -
    have "0 \<le> (i1 - 1) * int ?s" using assms(9) by simp
    then show ?thesis using assms(10) by (simp add: rows_in_range_def algebra_simps)
  qed
  have nat0: "nat (i1 * int ?s - int ?s) = nat (i1 - 1) * ?s"
  proof -
    have "i1 * int ?s - int ?s = (i1 - 1) * int ?s" by (simp add: algebra_simps)
    then show ?thesis using assms(9) by (simp add: nat_mult_distrib)
  qed
  have p: "(Fin a - Fin a) / (Fin b - Fin a) = Fin 0"
    by (rule quotient_at_t0[OF assms(3)])
  have "map (combined ?v (offsetPrev c) (i1 * int ?s - int ?s) (i1 * int ?s) (offsetNext c)
               (Fin 0) (Fin 1) (Fin 0) (Fin 0)) [0..<?s]
        = map (\<lambda>j. ?v ! (nat (i1 - 1) * ?s + j)) [0..<?s]"
    by (rule map_cong) (simp_all add: combined_at_p0[OF assms(11) o0 o1 assms(12) assms(8)] nat0)
  moreover have "nat (i1 - 1) * ?s + ?s \<le> length ?v"
    using o0 nat0 by (simp add: rows_in_range_def) linarith
  then have "map (\<lambda>j. ?v ! (nat (i1 - 1) * ?s + j)) [0..<?s] = row ?v ?s (nat (i1 - 1))"
    by (simp add: row_def map_nth_slice)
  ultimately have loop:
    "interpolate_loop ?v ?s (offsetPrev c) (i1 * int ?s - int ?s) (i1 * int ?s) (offsetNext c)
        (Fin 0) (Fin 1) (Fin 0) (Fin 0) 0 (resultBuffer c)
     = Some (row ?v ?s (nat (i1 - 1)) @ drop ?s (resultBuffer c))"
    by (simp add: interpolate_loop_result)
  show ?thesis
    unfolding interpolate_def Let_def assms(1,2,4,6) p
      basis_at_zero[OF assms(5,7)] loop
    by simp
qed

lemma twice_overflows: "of_product (2 * 2 ^ 1023) = PInf"
proof -
  have "(2 :: real) * 2 ^ 1023 = 2 ^ 1024" by simp
  moreover have "(2 :: real) ^ 1024 - 2 ^ 970 \<le> 2 ^ 1024" by simp
  ultimately show ?thesis
    by (simp add: of_product_def overflow_bound_def del: power_Suc)
qed

lemma small_in_range: "1 \<le> \<bar>r\<bar> \<Longrightarrow> \<bar>r\<bar> \<le> 1000 \<Longrightarrow> in_range r"
proof -
  assume a: "1 \<le> \<bar>r\<bar>" "\<bar>r\<bar> \<le> 1000"
  have "underflow_bound < 1" by (simp add: underflow_bound_def)
  moreover have "(1000 :: real) \<le> max_double" by (simp add: max_double_def)
  ultimately show ?thesis using a by (simp add: in_range_def)
qed

theorem interpolate_at_t0_is_previous_row_witness:
  "(1 :: real) \<noteq> 2 \<and> \<bar>7 :: real\<bar> * 2 \<le> max_double \<and> \<bar>- 3 :: real\<bar> \<le> max_double
   \<and> list_all is_double [Fin 1, Fin 2, Fin 3, Fin 4, Fin 5, Fin 6]
   \<and> rows_in_range [Fin 1, Fin 2, Fin 3, Fin 4, Fin 5, Fin 6] 2 0
   \<and> rows_in_range [Fin 1, Fin 2, Fin 3, Fin 4, Fin 5, Fin 6] 2 4
   \<and> interpolate \<lparr>parameterPositions = [Fin 0, Fin 1, Fin 2],
                   sampleValues = [Fin 1, Fin 2, Fin 3, Fin 4, Fin 5, Fin 6],
                   valueSize = 2, resultBuffer = [Fin 9, Fin 9], settings = None,
                   weightPrev = Fin 7, offsetPrev = 0, weightNext = Fin (- 3), offsetNext = 4\<rparr>
        2 (Fin 1) (Fin 1) (Fin 2)
      = Some \<lparr>parameterPositions = [Fin 0, Fin 1, Fin 2],
               sampleValues = [Fin 1, Fin 2, Fin 3, Fin 4, Fin 5, Fin 6],
               valueSize = 2, resultBuffer = [Fin 3, Fin 4], settings = None,
               weightPrev = Fin 7, offsetPrev = 0, weightNext = Fin (- 3), offsetNext = 4\<rparr>"
proof -
  have w: "\<bar>7 :: real\<bar> * 2 \<le> max_double" "\<bar>- 3 :: real\<bar> \<le> max_double"
    by (simp_all add: max_double_def)
  have d: "list_all is_double [Fin 1, Fin 2, Fin 3, Fin 4, Fin 5, Fin 6]"
    by (simp add: small_in_range)
  have r: "rows_in_range [Fin 1, Fin 2, Fin 3, Fin 4, Fin 5, Fin 6] 2 0"
    "rows_in_range [Fin 1, Fin 2, Fin 3, Fin 4, Fin 5, Fin 6] 2 4"
    by (simp_all add: rows_in_range_def)
  show ?thesis
    using w d r interpolate_at_t0_is_previous_row
      [where c = "\<lparr>parameterPositions = [Fin 0, Fin 1, Fin 2],
                   sampleValues = [Fin 1, Fin 2, Fin 3, Fin 4, Fin 5, Fin 6],
                   valueSize = 2, resultBuffer = [Fin 9, Fin 9], settings = None,
                   weightPrev = Fin 7, offsetPrev = 0, weightNext = Fin (- 3), offsetNext = 4\<rparr>"
         and ?i1.0 = 2 and ?t0.0 = "Fin 1" and ?t1.0 = "Fin 2" and a = 1 and b = 2
         and wp = 7 and wn = "- 3"]
    by (simp add: row_def)
qed

theorem interpolate_infinite_weight_counterexample:
  "intervalChanged \<lparr>parameterPositions = [Fin 0, Fin 0, Fin 1],
                     sampleValues = [Fin 1, Fin 2, Fin 3],
                     valueSize = 1, resultBuffer = [Fin 9], settings = None,
                     weightPrev = Fin 0, offsetPrev = 0, weightNext = Fin 0, offsetNext = 0\<rparr>
     2 (Fin 0) (Fin 1)
   = \<lparr>parameterPositions = [Fin 0, Fin 0, Fin 1], sampleValues = [Fin 1, Fin 2, Fin 3],
      valueSize = 1, resultBuffer = [Fin 9], settings = None,
      weightPrev = PInf, offsetPrev = 0, weightNext = Fin (- 1 / 2), offsetNext = 1\<rparr>
   \<and> interpolate \<lparr>parameterPositions = [Fin 0, Fin 0, Fin 1], sampleValues = [Fin 1, Fin 2, Fin 3],
                   valueSize = 1, resultBuffer = [Fin 9], settings = None,
                   weightPrev = PInf, offsetPrev = 0, weightNext = Fin (- 1 / 2), offsetNext = 1\<rparr>
       2 (Fin 0) (Fin 0) (Fin 1)
   = Some \<lparr>parameterPositions = [Fin 0, Fin 0, Fin 1], sampleValues = [Fin 1, Fin 2, Fin 3],
            valueSize = 1, resultBuffer = [NaN], settings = None,
            weightPrev = PInf, offsetPrev = 0, weightNext = Fin (- 1 / 2), offsetNext = 1\<rparr>
   \<and> row [Fin 1, Fin 2, Fin 3] 1 1 = [Fin 2]
   \<and> interpolate \<lparr>parameterPositions = [Fin 0, Fin 1, Fin 2], sampleValues = [Fin 1, Fin 2, Fin 3],
                   valueSize = 1, resultBuffer = [Fin 9], settings = None,
                   weightPrev = Fin (2 ^ 1023), offsetPrev = 0, weightNext = Fin 0, offsetNext = 2\<rparr>
       1 (Fin 0) (Fin 0) (Fin 1)
   = Some \<lparr>parameterPositions = [Fin 0, Fin 1, Fin 2], sampleValues = [Fin 1, Fin 2, Fin 3],
            valueSize = 1, resultBuffer = [NaN], settings = None,
            weightPrev = Fin (2 ^ 1023), offsetPrev = 0, weightNext = Fin 0, offsetNext = 2\<rparr>
   \<and> row [Fin 1, Fin 2, Fin 3] 1 0 = [Fin 1]"
proof -
  have b: "(1 :: real) < overflow_bound" "(1 / 2 :: real) < overflow_bound"
    "\<not> (1 / 2 :: real) \<le> underflow_bound" "\<not> (1 :: real) \<le> underflow_bound"
    by (simp_all add: overflow_bound_def underflow_bound_def)
  have ic: "intervalChanged \<lparr>parameterPositions = [Fin 0, Fin 0, Fin 1],
                     sampleValues = [Fin 1, Fin 2, Fin 3],
                     valueSize = 1, resultBuffer = [Fin 9], settings = None,
                     weightPrev = Fin 0, offsetPrev = 0, weightNext = Fin 0, offsetNext = 0\<rparr>
     2 (Fin 0) (Fin 1)
   = \<lparr>parameterPositions = [Fin 0, Fin 0, Fin 1], sampleValues = [Fin 1, Fin 2, Fin 3],
      valueSize = 1, resultBuffer = [Fin 9], settings = None,
      weightPrev = PInf, offsetPrev = 0, weightNext = Fin (- 1 / 2), offsetNext = 1\<rparr>"
    using b
    by (simp add: intervalChanged_def jsget_def Let_def getSettings_def DefaultSettings_def
          minus_jsnum_def of_sum_def of_product_def)
  have ip: "interpolate \<lparr>parameterPositions = [Fin 0, Fin 0, Fin 1], sampleValues = [Fin 1, Fin 2, Fin 3],
                   valueSize = 1, resultBuffer = [Fin 9], settings = None,
                   weightPrev = PInf, offsetPrev = 0, weightNext = Fin (- 1 / 2), offsetNext = 1\<rparr>
       2 (Fin 0) (Fin 0) (Fin 1)
   = Some \<lparr>parameterPositions = [Fin 0, Fin 0, Fin 1], sampleValues = [Fin 1, Fin 2, Fin 3],
            valueSize = 1, resultBuffer = [NaN], settings = None,
            weightPrev = PInf, offsetPrev = 0, weightNext = Fin (- 1 / 2), offsetNext = 1\<rparr>"
    using b
    by (simp add: interpolate_def Let_def interpolate_loop_result combined_def jsget_def
          minus_jsnum_def of_sum_def of_product_def)
  have p: "(Fin 0 - Fin 0) / (Fin 1 - Fin 0) = Fin 0"
    using b by (simp add: minus_jsnum_def of_sum_def of_product_def)
  have w: "Fin 2 * Fin (2 ^ 1023) = PInf"
    using twice_overflows by simp
  have m: "- Fin (2 ^ 1023) * Fin 0 = Fin 0" "Fin (2 ^ 1023) * Fin 0 = Fin 0" "Fin 0 * Fin 0 = Fin 0"
    by (simp_all add: of_product_def overflow_bound_def underflow_bound_def)
  have big: "interpolate \<lparr>parameterPositions = [Fin 0, Fin 1, Fin 2], sampleValues = [Fin 1, Fin 2, Fin 3],
                   valueSize = 1, resultBuffer = [Fin 9], settings = None,
                   weightPrev = Fin (2 ^ 1023), offsetPrev = 0, weightNext = Fin 0, offsetNext = 2\<rparr>
       1 (Fin 0) (Fin 0) (Fin 1)
   = Some \<lparr>parameterPositions = [Fin 0, Fin 1, Fin 2], sampleValues = [Fin 1, Fin 2, Fin 3],
            valueSize = 1, resultBuffer = [NaN], settings = None,
            weightPrev = Fin (2 ^ 1023), offsetPrev = 0, weightNext = Fin 0, offsetNext = 2\<rparr>"
    unfolding interpolate_def Let_def
    apply (simp only: cubic_interpolant.simps p m w)
    apply (simp add: interpolate_loop_result combined_def jsget_def minus_jsnum_def)
    done
  show ?thesis
    using ic ip big by (simp add: row_def)
qed

section \<open>Spherical interpolation on flat arrays\<close>

lemma EPSILON_pos: "0 < EPSILON"
  by (simp add: EPSILON_def)

subsection \<open>The two branches of the blend\<close>

text \<open>
  \<open>d\<close> is the sign \<open>dir\<close> of the cosine.  When the slerp branch is skipped, \<open>s\<close> is
  still \<open>1 - t\<close> and the blend is normalised; when it is entered, the blend is
  normalised only if the two ratios happen to add up to \<open>1\<close>.
\<close>

lemma blend_lerp:
  assumes "\<not> 1 - (x0 * x1 + y0 * y1 + z0 * z1 + w0 * w1) * (x0 * x1 + y0 * y1 + z0 * z1 + w0 * w1) > EPSILON"
    and "d = (if x0 * x1 + y0 * y1 + z0 * z1 + w0 * w1 \<ge> 0 then 1 else - 1)"
  shows "slerpFlat_blend x0 y0 z0 w0 x1 y1 z1 w1 t =
           Option.bind (jsdiv 1 (sqrt ((x0 * (1 - t) + x1 * (t * d)) * (x0 * (1 - t) + x1 * (t * d))
                                    + (y0 * (1 - t) + y1 * (t * d)) * (y0 * (1 - t) + y1 * (t * d))
                                    + (z0 * (1 - t) + z1 * (t * d)) * (z0 * (1 - t) + z1 * (t * d))
                                    + (w0 * (1 - t) + w1 * (t * d)) * (w0 * (1 - t) + w1 * (t * d)))))
             (\<lambda>f. Some ((x0 * (1 - t) + x1 * (t * d)) * f, (y0 * (1 - t) + y1 * (t * d)) * f,
                        (z0 * (1 - t) + z1 * (t * d)) * f, (w0 * (1 - t) + w1 * (t * d)) * f))"
  using assms(1) unfolding slerpFlat_blend_def Let_def assms(2)
  by (simp only: if_False split_conv if_True refl)

lemma blend_slerp:
  assumes "1 - (x0 * x1 + y0 * y1 + z0 * z1 + w0 * w1) * (x0 * x1 + y0 * y1 + z0 * z1 + w0 * w1) > EPSILON"
    and "d = (if x0 * x1 + y0 * y1 + z0 * z1 + w0 * w1 \<ge> 0 then 1 else - 1)"
    and "sn = sqrt (1 - (x0 * x1 + y0 * y1 + z0 * z1 + w0 * w1) * (x0 * x1 + y0 * y1 + z0 * z1 + w0 * w1))"
    and "th = atan2 sn ((x0 * x1 + y0 * y1 + z0 * z1 + w0 * w1) * d)"
    and "ra = sin ((1 - t) * th) / sn"
    and "rb = sin (t * th) / sn"
  shows "slerpFlat_blend x0 y0 z0 w0 x1 y1 z1 w1 t =
           (if ra = 1 - rb then
              Option.bind (jsdiv 1 (sqrt ((x0 * ra + x1 * (rb * d)) * (x0 * ra + x1 * (rb * d))
                                    + (y0 * ra + y1 * (rb * d)) * (y0 * ra + y1 * (rb * d))
                                    + (z0 * ra + z1 * (rb * d)) * (z0 * ra + z1 * (rb * d))
                                    + (w0 * ra + w1 * (rb * d)) * (w0 * ra + w1 * (rb * d)))))
             (\<lambda>f. Some ((x0 * ra + x1 * (rb * d)) * f, (y0 * ra + y1 * (rb * d)) * f,
                        (z0 * ra + z1 * (rb * d)) * f, (w0 * ra + w1 * (rb * d)) * f))
            else Some (x0 * ra + x1 * (rb * d), y0 * ra + y1 * (rb * d),
                       z0 * ra + z1 * (rb * d), w0 * ra + w1 * (rb * d)))"
  using assms(1) unfolding slerpFlat_blend_def Let_def assms(2-6)
  by (simp only: if_False split_conv if_True refl)

subsection \<open>Where the two methods agree\<close>

lemma blend_agrees:
  fixes x0 y0 z0 w0 x1 y1 z1 w1 t cs d :: real
  assumes cs: "cs = x0 * x1 + y0 * y1 + z0 * z1 + w0 * w1"
    and d: "d = (if cs \<ge> 0 then 1 else - 1)"
    and lt: "\<bar>cs\<bar> < 1"
    and cond: "if 1 - \<bar>cs\<bar> * \<bar>cs\<bar> \<le> EPSILON
               then sqrt (((1 - t) * x0 + t * (d * x1)) * ((1 - t) * x0 + t * (d * x1))
                        + ((1 - t) * y0 + t * (d * y1)) * ((1 - t) * y0 + t * (d * y1))
                        + ((1 - t) * z0 + t * (d * z1)) * ((1 - t) * z0 + t * (d * z1))
                        + ((1 - t) * w0 + t * (d * w1)) * ((1 - t) * w0 + t * (d * w1))) \<noteq> 0
               else ratioA \<bar>cs\<bar> t \<noteq> 1 - ratioB \<bar>cs\<bar> t"
  shows "slerpFlat_blend x0 y0 z0 w0 x1 y1 z1 w1 t =
           Some (slerp_tail x0 y0 z0 w0 (d * x1) (d * y1) (d * z1) (d * w1) (cs * d) t)"
proof -
  define c where "c = cs * d"
  have ca: "c = \<bar>cs\<bar>" by (simp add: c_def d)
  have c1: "\<not> 1 \<le> c" using lt ca by simp
  have cc: "c * c = cs * cs" by (simp add: ca)
  have d': "d = (if x0 * x1 + y0 * y1 + z0 * z1 + w0 * w1 \<ge> 0 then 1 else - 1)"
    using d cs by simp
  show ?thesis
  proof (cases "1 - c * c \<le> EPSILON")
    case True
    define vx vy vz vw where "vx = x0 * (1 - t) + x1 * (t * d)" and "vy = y0 * (1 - t) + y1 * (t * d)"
      and "vz = z0 * (1 - t) + z1 * (t * d)" and "vw = w0 * (1 - t) + w1 * (t * d)"
    have nl: "\<not> 1 - (x0 * x1 + y0 * y1 + z0 * z1 + w0 * w1) * (x0 * x1 + y0 * y1 + z0 * z1 + w0 * w1) > EPSILON"
      using True cc by (simp add: cs)
    have tl: "(1 - t) * x0 + t * (d * x1) = vx" "(1 - t) * y0 + t * (d * y1) = vy"
      "(1 - t) * z0 + t * (d * z1) = vz" "(1 - t) * w0 + t * (d * w1) = vw"
      by (simp_all add: vx_def vy_def vz_def vw_def algebra_simps)
    have sq: "sqrt (vx * vx + vy * vy + vz * vz + vw * vw) \<noteq> 0"
      using cond True unfolding ca[symmetric] tl by simp
    have "slerp_tail x0 y0 z0 w0 (d * x1) (d * y1) (d * z1) (d * w1) (cs * d) t =
            (vx * (1 / sqrt (vx * vx + vy * vy + vz * vz + vw * vw)),
             vy * (1 / sqrt (vx * vx + vy * vy + vz * vz + vw * vw)),
             vz * (1 / sqrt (vx * vx + vy * vy + vz * vz + vw * vw)),
             vw * (1 / sqrt (vx * vx + vy * vy + vz * vz + vw * vw)))"
      unfolding slerp_tail_def Let_def tl c_def[symmetric]
      using c1 True sq by simp
    moreover have "slerpFlat_blend x0 y0 z0 w0 x1 y1 z1 w1 t =
            Some (vx * (1 / sqrt (vx * vx + vy * vy + vz * vz + vw * vw)),
             vy * (1 / sqrt (vx * vx + vy * vy + vz * vz + vw * vw)),
             vz * (1 / sqrt (vx * vx + vy * vy + vz * vz + vw * vw)),
             vw * (1 / sqrt (vx * vx + vy * vy + vz * vz + vw * vw)))"
      unfolding blend_lerp[OF nl d'] vx_def[symmetric] vy_def[symmetric] vz_def[symmetric] vw_def[symmetric]
      using sq by (simp add: jsdiv_def)
    ultimately show ?thesis by simp
  next
    case False
    define sn where "sn = sqrt (1 - c * c)"
    define th where "th = atan2 sn c"
    define ra where "ra = sin ((1 - t) * th) / sn"
    define rb where "rb = sin (t * th) / sn"
    define rx ry rz rw where "rx = x0 * ra + x1 * (rb * d)" and "ry = y0 * ra + y1 * (rb * d)"
      and "rz = z0 * ra + z1 * (rb * d)" and "rw = w0 * ra + w1 * (rb * d)"
    have sl: "1 - (x0 * x1 + y0 * y1 + z0 * z1 + w0 * w1) * (x0 * x1 + y0 * y1 + z0 * z1 + w0 * w1) > EPSILON"
      using False cc by (simp add: cs)
    have sn': "sn = sqrt (1 - (x0 * x1 + y0 * y1 + z0 * z1 + w0 * w1) * (x0 * x1 + y0 * y1 + z0 * z1 + w0 * w1))"
      by (simp add: sn_def cc cs)
    have th': "th = atan2 sn ((x0 * x1 + y0 * y1 + z0 * z1 + w0 * w1) * d)"
      by (simp add: th_def c_def cs)
    have "ratioA c t = ra" "ratioB c t = rb"
      by (simp_all add: ratioA_def ratioB_def ra_def rb_def th_def sn_def)
    then have ne: "ra \<noteq> 1 - rb"
      using cond False unfolding ca[symmetric] by simp
    have "slerpFlat_blend x0 y0 z0 w0 x1 y1 z1 w1 t = Some (rx, ry, rz, rw)"
      unfolding blend_slerp[OF sl d' sn' th' ra_def rb_def]
        rx_def[symmetric] ry_def[symmetric] rz_def[symmetric] rw_def[symmetric]
      using ne by simp
    moreover have "slerp_tail x0 y0 z0 w0 (d * x1) (d * y1) (d * z1) (d * w1) (cs * d) t
                   = (rx, ry, rz, rw)"
      unfolding slerp_tail_def Let_def c_def[symmetric] sn_def[symmetric] th_def[symmetric]
        ra_def[symmetric] rb_def[symmetric]
      using c1 False by (simp add: rx_def ry_def rz_def rw_def algebra_simps)
    ultimately show ?thesis by simp
  qed
qed

lemma toArray_write4:
  "toArray q dst off = write4 dst off (q_x q) (q_y q) (q_z q) (q_w q)"
  by (simp add: toArray_def write4_def)

lemma slerpFlat_reads:
  assumes "fromArray p0 src0 srcOffset0 = Some a" and "fromArray p1 src1 srcOffset1 = Some b"
  shows "slerpFlat dst dstOffset src0 srcOffset0 src1 srcOffset1 t =
    (if t = 0 then write4 dst dstOffset (q_x a) (q_y a) (q_z a) (q_w a)
     else if t = 1 then write4 dst dstOffset (q_x b) (q_y b) (q_z b) (q_w b)
     else Option.bind
            (if q_w a \<noteq> q_w b \<or> q_x a \<noteq> q_x b \<or> q_y a \<noteq> q_y b \<or> q_z a \<noteq> q_z b
             then slerpFlat_blend (q_x a) (q_y a) (q_z a) (q_w a) (q_x b) (q_y b) (q_z b) (q_w b) t
             else Some (q_x a, q_y a, q_z a, q_w a))
            (\<lambda>(x0, y0, z0, w0). write4 dst dstOffset x0 y0 z0 w0))"
  using fromArray_Some[OF assms(1)] fromArray_Some[OF assms(2)]
  by (simp add: slerpFlat_def)

text \<open>
  C1, as amended.  For quaternions read by \<open>fromArray\<close> at any offsets of any arrays,
  \<open>slerpFlat\<close> writes into \<open>dst\<close> at \<open>dstOffset\<close> the components that \<open>slerp\<close>
  produces
  \<^item> at \<open>t = 0\<close> (those of the first quaternion) and at \<open>t = 1\<close> (those of the second);
  \<^item> when the two quaternions have the same components and \<open>slerp\<close> leaves at
    \<open>cosHalfTheta >= 1\<close>;
  \<^item> when they differ, the cosines that the two methods sum in different orders are the
    same number, \<open>slerp\<close> does not leave at \<open>cosHalfTheta >= 1\<close>, and either both blend
    linearly and the blend has a length other than \<open>0\<close>, or both blend spherically and
    the test \<open>s === 1 - t\<close> of \<open>slerpFlat\<close> fails.
  Elsewhere the two can differ: \<open>slerp\<close> leaves \<open>this\<close> unchanged at a cosine of at
  least \<open>1\<close> where \<open>slerpFlat\<close> blends and normalises; \<open>slerpFlat\<close> copies the first
  of two equal quaternions where \<open>slerp\<close> blends; and \<open>normalize\<close> guards a blend of
  length \<open>0\<close> where \<open>slerpFlat\<close> divides by it.
\<close>

theorem slerpFlat_agrees_with_slerp:
  assumes fa: "fromArray p0 src0 srcOffset0 = Some a"
    and fb: "fromArray p1 src1 srcOffset1 = Some b"
    and ok: "t = 0 \<or> t = 1
       \<or> (components a = components b \<and> 1 \<le> \<bar>cosHalfTheta a b\<bar>)
       \<or> (components a \<noteq> components b \<and> cosHalfTheta a b = dot a b \<and> \<bar>cosHalfTheta a b\<bar> < 1
          \<and> (if 1 - \<bar>cosHalfTheta a b\<bar> * \<bar>cosHalfTheta a b\<bar> \<le> EPSILON
             then lerp_length a b t \<noteq> 0
             else ratioA \<bar>cosHalfTheta a b\<bar> t \<noteq> 1 - ratioB \<bar>cosHalfTheta a b\<bar> t))"
  shows "slerpFlat dst dstOffset src0 srcOffset0 src1 srcOffset1 t
           = toArray (slerp a b t) dst dstOffset
         \<and> (t = 0 \<longrightarrow> components (slerp a b t) = components a)
         \<and> (t = 1 \<longrightarrow> components (slerp a b t) = components b)"
proof (intro conjI impI)
  show "components (slerp a b t) = components a" if "t = 0"
    using that by (simp add: slerp_def)
  show "components (slerp a b t) = components b" if "t = 1"
    using that by (simp add: slerp_def copy_def components_def onChangeCallback_def)
  show "slerpFlat dst dstOffset src0 srcOffset0 src1 srcOffset1 t = toArray (slerp a b t) dst dstOffset"
  proof (cases "t = 0 \<or> t = 1")
    case True
    then show ?thesis
      unfolding slerpFlat_reads[OF fa fb] toArray_write4
      by (auto simp: slerp_def copy_def onChangeCallback_def)
  next
    case False
    then have t0: "t \<noteq> 0" and t1: "t \<noteq> 1" by simp_all
    have blend: "(if q_w a \<noteq> q_w b \<or> q_x a \<noteq> q_x b \<or> q_y a \<noteq> q_y b \<or> q_z a \<noteq> q_z b
             then slerpFlat_blend (q_x a) (q_y a) (q_z a) (q_w a) (q_x b) (q_y b) (q_z b) (q_w b) t
             else Some (q_x a, q_y a, q_z a, q_w a)) = Some (components (slerp a b t))"
    proof (cases "components a = components b")
      case True
      then have e: "q_x b = q_x a" "q_y b = q_y a" "q_z b = q_z a" "q_w b = q_w a"
        by (simp_all add: components_def)
      from ok False True have one: "1 \<le> \<bar>cosHalfTheta a b\<bar>" by simp
      have "components (slerp a b t) = (q_x a, q_y a, q_z a, q_w a)"
      proof -
        from one consider "cosHalfTheta a b \<le> - 1" | "1 \<le> cosHalfTheta a b" by linarith
        then show ?thesis
          unfolding slerp_components[OF t0 t1]
          by cases (simp_all add: slerp_tail_def)
      qed
      then show ?thesis by (simp add: e)
    next
      case differ: False
      from ok False differ
      have "cosHalfTheta a b = dot a b \<and> \<bar>cosHalfTheta a b\<bar> < 1
          \<and> (if 1 - \<bar>cosHalfTheta a b\<bar> * \<bar>cosHalfTheta a b\<bar> \<le> EPSILON
             then lerp_length a b t \<noteq> 0
             else ratioA \<bar>cosHalfTheta a b\<bar> t \<noteq> 1 - ratioB \<bar>cosHalfTheta a b\<bar> t)"
        by blast
      then have eq: "cosHalfTheta a b = dot a b" and lt: "\<bar>cosHalfTheta a b\<bar> < 1"
        and cond: "if 1 - \<bar>cosHalfTheta a b\<bar> * \<bar>cosHalfTheta a b\<bar> \<le> EPSILON
             then lerp_length a b t \<noteq> 0
             else ratioA \<bar>cosHalfTheta a b\<bar> t \<noteq> 1 - ratioB \<bar>cosHalfTheta a b\<bar> t"
        by blast+
      define d :: real where "d = (if dot a b \<ge> 0 then 1 else - 1)"
      have comps: "components (slerp a b t) =
          slerp_tail (q_x a) (q_y a) (q_z a) (q_w a)
            (d * q_x b) (d * q_y b) (d * q_z b) (d * q_w b) (dot a b * d) t"
        unfolding slerp_components[OF t0 t1] eq by (simp add: d_def)
      have ll: "lerp_length a b t =
          sqrt (((1 - t) * q_x a + t * (d * q_x b)) * ((1 - t) * q_x a + t * (d * q_x b))
              + ((1 - t) * q_y a + t * (d * q_y b)) * ((1 - t) * q_y a + t * (d * q_y b))
              + ((1 - t) * q_z a + t * (d * q_z b)) * ((1 - t) * q_z a + t * (d * q_z b))
              + ((1 - t) * q_w a + t * (d * q_w b)) * ((1 - t) * q_w a + t * (d * q_w b)))"
        unfolding lerp_length_def slerp_target_def eq by (simp add: d_def Let_def)
      have "slerpFlat_blend (q_x a) (q_y a) (q_z a) (q_w a) (q_x b) (q_y b) (q_z b) (q_w b) t
          = Some (components (slerp a b t))"
        unfolding comps
      proof (rule blend_agrees[OF _ d_def])
        show "dot a b = q_x a * q_x b + q_y a * q_y b + q_z a * q_z b + q_w a * q_w b"
          by (simp add: dot_def)
        show "\<bar>dot a b\<bar> < 1" using lt eq by simp
        show "if 1 - \<bar>dot a b\<bar> * \<bar>dot a b\<bar> \<le> EPSILON
               then sqrt (((1 - t) * q_x a + t * (d * q_x b)) * ((1 - t) * q_x a + t * (d * q_x b))
                        + ((1 - t) * q_y a + t * (d * q_y b)) * ((1 - t) * q_y a + t * (d * q_y b))
                        + ((1 - t) * q_z a + t * (d * q_z b)) * ((1 - t) * q_z a + t * (d * q_z b))
                        + ((1 - t) * q_w a + t * (d * q_w b)) * ((1 - t) * q_w a + t * (d * q_w b))) \<noteq> 0
               else ratioA \<bar>dot a b\<bar> t \<noteq> 1 - ratioB \<bar>dot a b\<bar> t"
          using cond unfolding ll eq .
      qed
      moreover have "q_w a \<noteq> q_w b \<or> q_x a \<noteq> q_x b \<or> q_y a \<noteq> q_y b \<or> q_z a \<noteq> q_z b"
        using differ by (auto simp: components_def)
      ultimately show ?thesis by simp
    qed
    have "slerpFlat dst dstOffset src0 srcOffset0 src1 srcOffset1 t =
            Option.bind (Some (components (slerp a b t)))
              (\<lambda>(x0, y0, z0, w0). write4 dst dstOffset x0 y0 z0 w0)"
      unfolding slerpFlat_reads[OF fa fb] blend
      using t0 t1 by simp
    then show ?thesis
      by (simp add: toArray_write4 components_def)
  qed
qed

lemma sqrt_9: "sqrt 9 = 3"
  using real_sqrt_abs2[of 3] by simp

lemma arctan_sqrt_3: "arctan (sqrt 3) = pi / 3"
proof -
  have "- (pi / 2) < pi / 3" "pi / 3 < pi / 2"
    using pi_gt_zero by linarith+
  then have "arctan (tan (pi / 3)) = pi / 3" by (rule arctan_tan)
  then show ?thesis by (simp add: tan_60)
qed

lemma sqrt_3_quarters: "sqrt (3 / 4) = sqrt 3 / 2"
  using real_sqrt_divide[of 3 4] real_sqrt_abs2[of 2] by simp

theorem slerpFlat_differs_from_slerp_counterexample:
  "slerpFlat [0, 0, 0, 0] 0 [0, 0, 0, 2] 0 [0, 0, 0, 4] 0 (1 / 2) = Some [0, 0, 0, 1]
   \<and> toArray (slerp \<lparr>q_x = 0, q_y = 0, q_z = 0, q_w = 2, q_changes = 1\<rparr>
                     \<lparr>q_x = 0, q_y = 0, q_z = 0, q_w = 4, q_changes = 1\<rparr> (1 / 2)) [0, 0, 0, 0] 0
     = Some [0, 0, 0, 2]
   \<and> slerpFlat [0, 0, 0, 0] 0 [1 / 2, 1 / 2, 0, 0] 0 [1 / 2, 1 / 2, 0, 0] 0 (1 / 2)
     = Some [1 / 2, 1 / 2, 0, 0]
   \<and> toArray (slerp \<lparr>q_x = 1 / 2, q_y = 1 / 2, q_z = 0, q_w = 0, q_changes = 1\<rparr>
                     \<lparr>q_x = 1 / 2, q_y = 1 / 2, q_z = 0, q_w = 0, q_changes = 1\<rparr> (1 / 2))
        [0, 0, 0, 0] 0
     = Some [1 / sqrt 3, 1 / sqrt 3, 0, 0]
   \<and> slerpFlat [0, 0, 0, 0] 0 [1, 0, 0, 0] 0 [1 - 1 / 2 ^ 53, 0, 0, 0] 0 (2 ^ 53) = None
   \<and> toArray (slerp \<lparr>q_x = 1, q_y = 0, q_z = 0, q_w = 0, q_changes = 1\<rparr>
                     \<lparr>q_x = 1 - 1 / 2 ^ 53, q_y = 0, q_z = 0, q_w = 0, q_changes = 1\<rparr> (2 ^ 53))
        [0, 0, 0, 0] 0
     = Some [0, 0, 0, 1]"
proof (intro conjI)
  have e: "\<not> (EPSILON < - 63)" using EPSILON_pos by simp
  show "slerpFlat [0, 0, 0, 0] 0 [0, 0, 0, 2] 0 [0, 0, 0, 4] 0 (1 / 2) = Some [0, 0, 0, 1]"
    using e
    by (simp add: jsget_def slerpFlat_def slerpFlat_blend_def
          write4_def jsset_def jsdiv_def Let_def sqrt_9)
  show "toArray (slerp \<lparr>q_x = 0, q_y = 0, q_z = 0, q_w = 2, q_changes = 1\<rparr>
                     \<lparr>q_x = 0, q_y = 0, q_z = 0, q_w = 4, q_changes = 1\<rparr> (1 / 2)) [0, 0, 0, 0] 0
     = Some [0, 0, 0, 2]"
    by (simp add: jsset_def toArray_def slerp_def copy_def onChangeCallback_def Let_def)
  show "slerpFlat [0, 0, 0, 0] 0 [1 / 2, 1 / 2, 0, 0] 0 [1 / 2, 1 / 2, 0, 0] 0 (1 / 2)
     = Some [1 / 2, 1 / 2, 0, 0]"
    by (simp add: jsget_def slerpFlat_def write4_def jsset_def)
  have e2: "\<not> (3 / 4 :: real) \<le> EPSILON" by (simp add: EPSILON_def)
  have r: "sin (pi / 6) / (sqrt 3 / 2) = 1 / sqrt 3" by (simp add: sin_30)
  show "toArray (slerp \<lparr>q_x = 1 / 2, q_y = 1 / 2, q_z = 0, q_w = 0, q_changes = 1\<rparr>
                     \<lparr>q_x = 1 / 2, q_y = 1 / 2, q_z = 0, q_w = 0, q_changes = 1\<rparr> (1 / 2))
        [0, 0, 0, 0] 0
     = Some [1 / sqrt 3, 1 / sqrt 3, 0, 0]"
    using e2
    by (simp add: jsset_def toArray_def slerp_def copy_def onChangeCallback_def Let_def
          atan2_def sqrt_3_quarters arctan_sqrt_3 sin_30)
  have c: "(1 - 1 / 2 ^ 53 :: real) \<ge> 0" by simp
  have s: "1 - (1 - 1 / 2 ^ 53) * (1 - 1 / 2 ^ 53) \<le> EPSILON"
    by (simp add: EPSILON_def)
  have z: "(1 - 2 ^ 53) + (1 - 1 / 2 ^ 53) * 2 ^ 53 = (0 :: real)"
    by simp
  show "slerpFlat [0, 0, 0, 0] 0 [1, 0, 0, 0] 0 [1 - 1 / 2 ^ 53, 0, 0, 0] 0 (2 ^ 53) = None"
    using s z
    by (simp add: jsget_def slerpFlat_def slerpFlat_blend_def
          write4_def jsset_def jsdiv_def Let_def)
  show "toArray (slerp \<lparr>q_x = 1, q_y = 0, q_z = 0, q_w = 0, q_changes = 1\<rparr>
                     \<lparr>q_x = 1 - 1 / 2 ^ 53, q_y = 0, q_z = 0, q_w = 0, q_changes = 1\<rparr> (2 ^ 53))
        [0, 0, 0, 0] 0
     = Some [0, 0, 0, 1]"
    using s z
    by (simp add: jsset_def toArray_def slerp_def copy_def onChangeCallback_def Let_def
          normalize_quat_def length_quat_def)
qed

theorem slerpFlat_agrees_with_slerp_witness:
  "fromArray \<lparr>q_x = 0, q_y = 0, q_z = 0, q_w = 1, q_changes = 0\<rparr> [1, 0, 0, 0, 9 :: real] 0
     = Some \<lparr>q_x = 1, q_y = 0, q_z = 0, q_w = 0, q_changes = 1\<rparr>
   \<and> fromArray \<lparr>q_x = 0, q_y = 0, q_z = 0, q_w = 1, q_changes = 0\<rparr> [9, 9, 0, 1, 0, 0 :: real] 2
     = Some \<lparr>q_x = 0, q_y = 1, q_z = 0, q_w = 0, q_changes = 1\<rparr>
   \<and> cosHalfTheta \<lparr>q_x = 1, q_y = 0, q_z = 0, q_w = 0, q_changes = 1\<rparr>
          \<lparr>q_x = 0, q_y = 1, q_z = 0, q_w = 0, q_changes = 1\<rparr> = 0
   \<and> dot \<lparr>q_x = 1, q_y = 0, q_z = 0, q_w = 0, q_changes = 1\<rparr>
          \<lparr>q_x = 0, q_y = 1, q_z = 0, q_w = 0, q_changes = 1\<rparr> = (0 :: real)
   \<and> ratioA 0 (1 / 2) = sqrt 2 / 2 \<and> ratioB 0 (1 / 2) = sqrt 2 / 2
   \<and> slerpFlat [7, 7, 7, 7, 7] 1 [1, 0, 0, 0, 9] 0 [9, 9, 0, 1, 0, 0] 2 (1 / 2)
     = toArray (slerp \<lparr>q_x = 1, q_y = 0, q_z = 0, q_w = 0, q_changes = 1\<rparr>
                      \<lparr>q_x = 0, q_y = 1, q_z = 0, q_w = 0, q_changes = 1\<rparr> (1 / 2))
               [7, 7, 7, 7, 7] 1
   \<and> toArray (slerp \<lparr>q_x = 1, q_y = 0, q_z = 0, q_w = 0, q_changes = 1\<rparr>
                      \<lparr>q_x = 0, q_y = 1, q_z = 0, q_w = 0, q_changes = 1\<rparr> (1 / 2))
               [7, 7, 7, 7, 7] 1
     = Some [7, sqrt 2 / 2, sqrt 2 / 2, 0, 0]"
proof -
  let ?a = "\<lparr>q_x = 1, q_y = 0, q_z = 0, q_w = 0, q_changes = 1\<rparr> :: real quaternion"
  let ?b = "\<lparr>q_x = 0, q_y = 1, q_z = 0, q_w = 0, q_changes = 1\<rparr> :: real quaternion"
  have a: "fromArray \<lparr>q_x = 0, q_y = 0, q_z = 0, q_w = 1, q_changes = 0\<rparr> [1, 0, 0, 0, 9] 0
     = Some ?a"
    by (simp add: fromArray_def jsget_def onChangeCallback_def)
  have b: "fromArray \<lparr>q_x = 0, q_y = 0, q_z = 0, q_w = 1, q_changes = 0\<rparr> [9, 9, 0, 1, 0, 0] 2
     = Some ?b"
    by (simp add: fromArray_def jsget_def onChangeCallback_def)
  have c: "cosHalfTheta ?a ?b = 0" by (simp add: cosHalfTheta_def)
  have d: "dot ?a ?b = 0" by (simp add: dot_def)
  have e: "\<not> (1 :: real) \<le> EPSILON" by (simp add: EPSILON_def)
  have ra: "ratioA 0 (1 / 2) = sqrt 2 / 2" by (simp add: ratioA_def atan2_def sin_45)
  have rb: "ratioB 0 (1 / 2) = sqrt 2 / 2" by (simp add: ratioB_def atan2_def sin_45)
  have ne: "sqrt 2 / 2 \<noteq> 1 - sqrt 2 / 2"
  proof
    assume "sqrt 2 / 2 = 1 - sqrt 2 / 2"
    then have "sqrt 2 = 1" by simp
    then show False by simp
  qed
  have u: "(1 / 2 :: real) = 0 \<or> (1 / 2 :: real) = 1
       \<or> (components ?a = components ?b \<and> 1 \<le> \<bar>cosHalfTheta ?a ?b\<bar>)
       \<or> (components ?a \<noteq> components ?b \<and> cosHalfTheta ?a ?b = dot ?a ?b
          \<and> \<bar>cosHalfTheta ?a ?b\<bar> < 1
          \<and> (if 1 - \<bar>cosHalfTheta ?a ?b\<bar> * \<bar>cosHalfTheta ?a ?b\<bar> \<le> EPSILON
             then lerp_length ?a ?b (1 / 2) \<noteq> 0
             else ratioA \<bar>cosHalfTheta ?a ?b\<bar> (1 / 2) \<noteq> 1 - ratioB \<bar>cosHalfTheta ?a ?b\<bar> (1 / 2)))"
    unfolding c d using e ne by (simp add: components_def ra rb)
  have v: "toArray (slerp ?a ?b (1 / 2)) [7, 7, 7, 7, 7] 1
     = Some [7, sqrt 2 / 2, sqrt 2 / 2, 0, 0]"
    using e
    by (simp add: toArray_def jsset_def slerp_def Let_def copy_def onChangeCallback_def
          atan2_def sin_45)
  show ?thesis
    using a b c d ra rb v slerpFlat_agrees_with_slerp [OF a b u, of "[7, 7, 7, 7, 7]" 1]
    by simp
qed


end
